theory Spec2Isabelle
  imports Main
begin

section \<open>Strings: slugs and display names (app/server/server.js, lines 14-47)\<close>

text \<open>
  JavaScript strings are modelled as HOL strings, one \<^typ>\<open>char\<close> per UTF-16 code unit;
  the model therefore covers the strings whose code units are below 256 (ASCII and
  Latin-1).  A value that may be \<open>null\<close> or \<open>undefined\<close> is an \<open>option\<close>; the empty
  string is falsy, as in the source.
\<close>

definition code :: "char \<Rightarrow> nat" where
  "code c = of_char c"

text \<open>White space removed by \<open>String.prototype.trim\<close>, among the code units below 256.\<close>

definition isSpaceJS :: "char \<Rightarrow> bool" where
  "isSpaceJS c = (code c \<in> {9, 10, 11, 12, 13, 32, 160})"

definition trim :: "string \<Rightarrow> string" where
  "trim s = rev (dropWhile isSpaceJS (rev (dropWhile isSpaceJS s)))"

text \<open>\<open>toLowerCase\<close>: A-Z and the Latin-1 capitals (all but the multiplication sign).\<close>

definition toLowerChar :: "char \<Rightarrow> char" where
  "toLowerChar c =
     (if (65 \<le> code c \<and> code c \<le> 90) \<or> (192 \<le> code c \<and> code c \<le> 222 \<and> code c \<noteq> 215)
      then char_of (code c + 32) else c)"

definition toLowerCase :: "string \<Rightarrow> string" where
  "toLowerCase s = map toLowerChar s"

text \<open>The character class \<open>[a-z0-9]\<close>.\<close>

definition isSlugChar :: "char \<Rightarrow> bool" where
  "isSlugChar c = ((97 \<le> code c \<and> code c \<le> 122) \<or> (48 \<le> code c \<and> code c \<le> 57))"

text \<open>
  \<open>s.replace(/[^a-z0-9]+/g, '-')\<close>: every maximal run of characters outside the class
  becomes one dash.  The flag says that the previous character belonged to such a run.
\<close>

primrec replaceRuns :: "bool \<Rightarrow> string \<Rightarrow> string" where
  "replaceRuns b [] = []"
| "replaceRuns b (c # cs) =
     (if isSlugChar c then c # replaceRuns False cs
      else if b then replaceRuns True cs
      else CHR ''-'' # replaceRuns True cs)"

text \<open>\<open>s.replace(/^-+|-+$/g, '')\<close>: the leading and the trailing dashes go.\<close>

definition stripDashes :: "string \<Rightarrow> string" where
  "stripDashes s =
     rev (dropWhile (\<lambda>c. c = CHR ''-'') (rev (dropWhile (\<lambda>c. c = CHR ''-'') s)))"

text \<open>\<open>(s || '')\<close> for a string that may be null.\<close>

definition orEmpty :: "string option \<Rightarrow> string" where
  "orEmpty x = (case x of None \<Rightarrow> [] | Some s \<Rightarrow> s)"

definition iccjSlugify :: "string \<Rightarrow> string" where
  "iccjSlugify s0 =
     (let s = toLowerCase (trim s0) in
      if s = [] then []
      else stripDashes (replaceRuns False s))"


definition iccjMatchSlug :: "string option \<Rightarrow> string option \<Rightarrow> string" where
  "iccjMatchSlug hostName guestName =
     (let h = iccjSlugify (orEmpty hostName); g = iccjSlugify (orEmpty guestName) in
      if h \<noteq> [] \<and> g \<noteq> [] then h @ ''-vs-'' @ g
      else if h \<noteq> [] then h else g)"

text \<open>The class \<open>[A-Za-z0-9 .'\-]\<close> of \<open>iccjSafeDisplayName\<close>.\<close>

definition isNameChar :: "char \<Rightarrow> bool" where
  "isNameChar c =
     ((65 \<le> code c \<and> code c \<le> 90) \<or> (97 \<le> code c \<and> code c \<le> 122) \<or>
      (48 \<le> code c \<and> code c \<le> 57) \<or> code c \<in> {32, 46, 39, 45})"

text \<open>\<open>name.replace(/\s+/g, ' ')\<close>: every run of white space becomes one blank.\<close>

primrec collapseSpaces :: "bool \<Rightarrow> string \<Rightarrow> string" where
  "collapseSpaces b [] = []"
| "collapseSpaces b (c # cs) =
     (if \<not> isSpaceJS c then c # collapseSpaces False cs
      else if b then collapseSpaces True cs
      else CHR '' '' # collapseSpaces True cs)"

definition iccjSafeDisplayName :: "string \<Rightarrow> string" where
  "iccjSafeDisplayName name0 =
     (let name = trim name0 in
      if name = [] then []
      else (let name1 = filter isNameChar name;
                name2 = trim (collapseSpaces False name1)
            in if length name2 > 40 then trim (take 40 name2) else name2))"

text \<open>Decimal rendering of a number, for \<open>'Player ' + player.id\<close> and the error texts.\<close>

definition digitChar :: "nat \<Rightarrow> char" where
  "digitChar d = char_of (48 + d)"

function showNat :: "nat \<Rightarrow> string" where
  "showNat n = (if n < 10 then [digitChar n] else showNat (n div 10) @ [digitChar (n mod 10)])"
  by pat_completeness auto
termination
  by (relation "measure id") auto

declare showNat.simps [simp del]

definition showInt :: "int \<Rightarrow> string" where
  "showInt i = (if i < 0 then CHR ''-'' # showNat (nat (- i)) else showNat (nat i))"

text \<open>
  The cookie lookup of \<open>handleCreateGuest\<close>: \<open>cookieStr.match(/\bplayer_id=([0-9]+)/)\<close>.
  The leftmost position at a word boundary where \<open>player_id=\<close> and at least one digit
  follow; the digits are the captured group.  The flag says that the previous character is
  no word character (or that the position is the start of the string).
\<close>

definition isDigit :: "char \<Rightarrow> bool" where
  "isDigit c = (48 \<le> code c \<and> code c \<le> 57)"

definition isWordChar :: "char \<Rightarrow> bool" where
  "isWordChar c =
     ((65 \<le> code c \<and> code c \<le> 90) \<or> (97 \<le> code c \<and> code c \<le> 122) \<or>
      (48 \<le> code c \<and> code c \<le> 57) \<or> code c = 95)"

definition parseDec :: "string \<Rightarrow> int" where
  "parseDec ds = foldl (\<lambda>a c. 10 * a + int (code c - 48)) 0 ds"

primrec cookieScan :: "bool \<Rightarrow> string \<Rightarrow> int option" where
  "cookieScan b [] = None"
| "cookieScan b (c # cs) =
     (if b \<and> take 10 (c # cs) = ''player_id='' \<and> takeWhile isDigit (drop 10 (c # cs)) \<noteq> []
      then Some (parseDec (takeWhile isDigit (drop 10 (c # cs))))
      else cookieScan (\<not> isWordChar c) cs)"

definition cookiePlayerID :: "string \<Rightarrow> int option" where
  "cookiePlayerID cookieStr = cookieScan True cookieStr"


section \<open>Data model\<close>

text \<open>
  A reference to a Player or Match object is its position in the array that holds it
  (\<open>this.players\<close>, \<open>this.matches\<close>): the server pushes every object it creates on
  its array and never removes one, so the position identifies the object, and two holders
  of the same position share the object as they do in the source.
\<close>

type_synonym ref = nat
type_synonym socket_id = string

datatype piece_type = WHITE | BLACK

datatype piece = Piece piece_type int

text \<open>
  Modelled from the spec: lib/model.js is not among the sources.  Player, Game, Match
  and MoveAction carry the fields the spec's data model lists and the fields server.js
  reads and writes.
\<close>

record player =
  p_id :: int
  p_name :: string
  p_socketID :: "socket_id option"
  p_currentMatch :: "int option"
  p_currentPieceType :: "piece_type option"

datatype move_action = MoveAction piece int int bool

type_synonym dice = "int list"

text \<open>
  The board State objects of a game live in the game's own store \<open>g_cells\<close>;
  \<open>g_state\<close> and \<open>g_previousState\<close> are addresses in it.  A move writes the cell
  at \<open>g_state\<close> in place, so two addresses that coincide alias the same State.
\<close>

record 'st game =
  g_id :: int
  g_cells :: "'st list"
  g_state :: nat
  g_previousState :: "nat option"
  g_hasStarted :: bool
  g_turnPlayer :: "ref option"
  g_turnNumber :: int
  g_turnDice :: "dice option"
  g_moveSequence :: int

text \<open>
  The score is a JavaScript object indexed by a colour; the key \<open>None\<close> is the property
  an unset colour names, and the value \<open>None\<close> is \<open>undefined\<close> or \<open>NaN\<close>.
\<close>

record 'st match =
  m_id :: int
  m_host :: "ref option"
  m_guest :: "ref option"
  m_players :: "int list"
  m_ruleName :: string
  m_score :: "piece_type option \<Rightarrow> int option"
  m_length :: int
  m_currentGame :: "'st game option"
  m_isOver :: bool
  m_hostName :: "string option"
  m_hostSlug :: "string option"
  m_guestName :: "string option"
  m_slug :: "string option"
  m_name :: "string option"

text \<open>
  Modelled from the spec: the rule variants (lib/rules) are not among the sources.
  A rule is the record of the operations of section 4.1 of the spec; the operations that
  take a game or a match also take the array of players, to follow the references in it.
  \<open>rollDice\<close> takes the outcome of its internal randomness as an argument;
  \<open>applyMoveActions\<close> returns \<open>None\<close> when it throws (all or nothing);
  \<open>markAsPlayed\<close> acts on the dice of the turn.
\<close>

record 'st rule =
  rule_name :: string
  initialState :: 'st
  rollDice :: "'st game \<Rightarrow> nat \<Rightarrow> dice"
  validateMove :: "player list \<Rightarrow> 'st game \<Rightarrow> ref option \<Rightarrow> piece \<Rightarrow> int option \<Rightarrow> bool"
  getMoveActions :: "'st \<Rightarrow> piece \<Rightarrow> int option \<Rightarrow> move_action list"
  applyMoveActions :: "'st \<Rightarrow> move_action list \<Rightarrow> 'st option"
  markAsPlayed :: "dice option \<Rightarrow> int option \<Rightarrow> dice option"
  validateConfirm :: "player list \<Rightarrow> 'st game option \<Rightarrow> ref option \<Rightarrow> bool"
  validateUndo :: "player list \<Rightarrow> 'st game option \<Rightarrow> ref option \<Rightarrow> bool"
  hasWon :: "'st \<Rightarrow> player list \<Rightarrow> ref option \<Rightarrow> bool"
  getGameScore :: "'st \<Rightarrow> player list \<Rightarrow> ref option \<Rightarrow> int"
  nextTurn :: "player list \<Rightarrow> 'st match \<Rightarrow> 'st match"

text \<open>A connection: the socket object with the properties the server hangs on it.\<close>

record 'st socket =
  sk_player :: "ref option"
  sk_match :: "ref option"
  sk_rule :: "'st rule option"
  sk_cookie :: "string option"

text \<open>
  The server: the socket objects by id, the ids registered in \<open>this.clients\<close>, and the
  two arrays.
\<close>

record 'st server =
  sockets :: "socket_id \<Rightarrow> 'st socket"
  clients :: "socket_id set"
  players :: "player list"
  matches :: "'st match list"

text \<open>
  What the process is given: \<open>model.Utils.loadRule\<close> (\<open>None\<close> when it throws because
  the named rule does not exist), \<open>process.env.DEBUG\<close>, and the length of a new match,
  which lib/model.js fixes.
\<close>

record 'st env =
  loadRule :: "string \<Rightarrow> 'st rule option"
  debug :: bool
  matchLength :: int

subsection \<open>Requests, replies and events\<close>

datatype message =
    CREATE_GUEST | GET_MATCH_LIST | PLAY_RANDOM | CREATE_MATCH | JOIN_MATCH | ROLL_DICE
  | MOVE_PIECE | CONFIRM_MOVES | UNDO_MOVES | RESIGN_GAME | RESIGN_MATCH
  | EVENT_PLAYER_JOINED | EVENT_TURN_START | EVENT_DICE_ROLL | EVENT_PIECE_MOVE
  | EVENT_MATCH_START | EVENT_GAME_OVER | EVENT_MATCH_OVER | EVENT_GAME_RESTART
  | EVENT_UNDO_MOVES

text \<open>
  The parameter object of a request.  A field the request leaves out is \<open>None\<close>: it is
  \<open>undefined\<close> in the source, falsy, and every \<open><\<close> on it is false.  A JSON \<open>null\<close> in a
  numeric field (which \<open><\<close> reads as 0) is outside the model.
\<close>

record params =
  clientMsgSeq :: "int option"
  playerName :: "string option"
  playerID :: "int option"
  hostSlug :: "string option"
  matchID :: "int option"
  ruleName :: "string option"
  piece :: "piece option"
  ptype :: "piece_type option"
  steps :: "int option"
  moveSequence :: "int option"

text \<open>The parameter object of an event: the match, and what the event adds to it.\<close>

datatype event_params =
    MatchOnly ref
  | MatchResult ref "ref option" bool
  | GameRestart ref bool
  | PieceMove ref piece "piece_type option" "int option" "move_action list"

text \<open>
  \<open>reply.sendAfter\<close>, the closure run once the reply is out: one message to a player, or
  messages to the players of a match.
\<close>

datatype deferred =
    ToPlayer ref message event_params
  | ToMatch ref "(message \<times> event_params) list"

record match_entry =
  e_id :: int
  e_name :: string
  e_slug :: "string option"
  e_hostSlug :: "string option"
  e_isOpen :: bool

record reply =
  result :: bool
  r_clientMsgSeq :: "int option"
  errorMessage :: "string option"
  r_player :: "ref option"
  reconnected :: "bool option"
  r_ruleName :: "string option"
  r_matchID :: "int option"
  r_hostSlug :: "string option"
  r_slug :: "string option"
  r_matchName :: "string option"
  reused :: "bool option"
  r_host :: "ref option"
  r_guest :: "ref option"
  r_dice :: "dice option"
  r_piece :: "piece option"
  r_type :: "piece_type option"
  r_steps :: "int option"
  r_moveActionList :: "move_action list option"
  r_list :: "match_entry list option"
  r_match :: "ref option"
  sendAfter :: "deferred option"

datatype payload = Event event_params | Reply reply

text \<open>One \<open>socket.emit\<close>: the connection, the message and its parameters.\<close>

record emission =
  to_socket :: socket_id
  em_message :: message
  em_params :: payload

text \<open>How a handler ends: it returns a flag, or an exception leaves it.\<close>

datatype completion = Return bool | Throw

type_synonym 'st outcome = "completion \<times> reply \<times> 'st server \<times> emission list"

text \<open>Truthiness of a string and of a number that may be missing.\<close>

definition truthyS :: "string option \<Rightarrow> bool" where
  "truthyS x = (case x of None \<Rightarrow> False | Some s \<Rightarrow> s \<noteq> [])"

definition truthyN :: "int option \<Rightarrow> bool" where
  "truthyN x = (case x of None \<Rightarrow> False | Some n \<Rightarrow> n \<noteq> 0)"


section \<open>The operations of lib/model.js that the server calls\<close>

text \<open>
  Modelled from the spec: lib/model.js is not among the sources.  \<open>Player.createNew\<close>
  and \<open>Match.createNew\<close> take the identifier they generate as an argument.
\<close>

definition Player_createNew :: "int \<Rightarrow> player" where
  "Player_createNew newID =
     \<lparr>p_id = newID, p_name = [], p_socketID = None, p_currentMatch = None,
      p_currentPieceType = None\<rparr>"

definition Game_createNew :: "'st rule \<Rightarrow> int \<Rightarrow> 'st game" where
  "Game_createNew rule newID =
     \<lparr>g_id = newID, g_cells = [initialState rule], g_state = 0, g_previousState = None,
      g_hasStarted = False, g_turnPlayer = None, g_turnNumber = 0, g_turnDice = None,
      g_moveSequence = 0\<rparr>"

definition Match_createNew :: "'st rule \<Rightarrow> int \<Rightarrow> int \<Rightarrow> 'st match" where
  "Match_createNew rule newID len =
     \<lparr>m_id = newID, m_host = None, m_guest = None, m_players = [],
      m_ruleName = rule_name rule,
      m_score = (\<lambda>c. case c of None \<Rightarrow> None | Some x \<Rightarrow> Some 0),
      m_length = len, m_currentGame = None, m_isOver = False,
      m_hostName = None, m_hostSlug = None, m_guestName = None, m_slug = None,
      m_name = None\<rparr>"

text \<open>Modelled from the spec: \<open>Match.addHostPlayer\<close> and \<open>Match.addGuestPlayer\<close> seat a player.\<close>

definition Match_addHostPlayer :: "'st match \<Rightarrow> ref \<Rightarrow> int \<Rightarrow> 'st match" where
  "Match_addHostPlayer m pr pid = m\<lparr>m_host := Some pr, m_players := m_players m @ [pid]\<rparr>"

definition Match_addGuestPlayer :: "'st match \<Rightarrow> ref \<Rightarrow> int \<Rightarrow> 'st match" where
  "Match_addGuestPlayer m pr pid = m\<lparr>m_guest := Some pr, m_players := m_players m @ [pid]\<rparr>"

text \<open>Modelled from the spec: \<open>Match.createNewGame\<close> makes a new Game the current one.\<close>

definition Match_createNewGame :: "'st match \<Rightarrow> 'st rule \<Rightarrow> int \<Rightarrow> 'st match" where
  "Match_createNewGame m rule newID = m\<lparr>m_currentGame := Some (Game_createNew rule newID)\<rparr>"

text \<open>Modelled from the spec: \<open>Match.isHost\<close> compares the player with the host by id.\<close>

definition Match_isHost :: "player list \<Rightarrow> 'st match \<Rightarrow> ref option \<Rightarrow> bool" where
  "Match_isHost ps m player =
     (case (m_host m, player) of
        (Some h, Some p) \<Rightarrow> p_id (ps ! h) = p_id (ps ! p)
      | _ \<Rightarrow> False)"

text \<open>The board State the game is played on.\<close>

definition boardState :: "'st game \<Rightarrow> 'st" where
  "boardState g = g_cells g ! g_state g"

text \<open>Modelled from the spec: the dice of the turn are cleared by the turn advance.\<close>

definition Game_diceWasRolled :: "'st game \<Rightarrow> bool" where
  "Game_diceWasRolled g = (g_turnDice g \<noteq> None)"

text \<open>
  Modelled from the spec: \<open>Game.snapshotState\<close> retains a deep, independent copy of the
  board State (a new State object), and \<open>Game.restoreState\<close> makes a deep, independent
  copy of the retained one the board State.  The spec does not say what a restore
  without a snapshot does; here it does nothing.
\<close>

definition Game_snapshotState :: "'st game \<Rightarrow> 'st game" where
  "Game_snapshotState g =
     g\<lparr>g_cells := g_cells g @ [g_cells g ! g_state g],
       g_previousState := Some (length (g_cells g))\<rparr>"

definition Game_restoreState :: "'st game \<Rightarrow> 'st game" where
  "Game_restoreState g =
     (case g_previousState g of
        None \<Rightarrow> g
      | Some p \<Rightarrow> g\<lparr>g_cells := g_cells g @ [g_cells g ! p], g_state := length (g_cells g)\<rparr>)"

section \<open>The server (app/server/server.js)\<close>

subsection \<open>Sockets, lookups and sending\<close>

definition getSocketMatch :: "'st server \<Rightarrow> socket_id \<Rightarrow> ref option" where
  "getSocketMatch s k = sk_match (sockets s k)"

definition getSocketPlayer :: "'st server \<Rightarrow> socket_id \<Rightarrow> ref option" where
  "getSocketPlayer s k = sk_player (sockets s k)"

definition getSocketRule :: "'st server \<Rightarrow> socket_id \<Rightarrow> 'st rule option" where
  "getSocketRule s k = sk_rule (sockets s k)"

definition setSocketMatch :: "'st server \<Rightarrow> socket_id \<Rightarrow> ref \<Rightarrow> 'st server" where
  "setSocketMatch s k m = s\<lparr>sockets := (sockets s)(k := (sockets s k)\<lparr>sk_match := Some m\<rparr>)\<rparr>"

definition setSocketPlayer :: "'st server \<Rightarrow> socket_id \<Rightarrow> ref \<Rightarrow> 'st server" where
  "setSocketPlayer s k p = s\<lparr>sockets := (sockets s)(k := (sockets s k)\<lparr>sk_player := Some p\<rparr>)\<rparr>"

definition setSocketRule :: "'st server \<Rightarrow> socket_id \<Rightarrow> 'st rule \<Rightarrow> 'st server" where
  "setSocketRule s k r = s\<lparr>sockets := (sockets s)(k := (sockets s k)\<lparr>sk_rule := Some r\<rparr>)\<rparr>"

text \<open>A write to the Player or the Match object behind a reference.\<close>

definition updPlayer :: "'st server \<Rightarrow> ref \<Rightarrow> (player \<Rightarrow> player) \<Rightarrow> 'st server" where
  "updPlayer s pr f = s\<lparr>players := (players s)[pr := f (players s ! pr)]\<rparr>"

definition updMatch :: "'st server \<Rightarrow> ref \<Rightarrow> ('st match \<Rightarrow> 'st match) \<Rightarrow> 'st server" where
  "updMatch s mr f = s\<lparr>matches := (matches s)[mr := f (matches s ! mr)]\<rparr>"

text \<open>The first position of an array whose element passes the test (the \<open>for\<close> loops).\<close>

primrec firstIndex :: "('a \<Rightarrow> bool) \<Rightarrow> 'a list \<Rightarrow> nat option" where
  "firstIndex P [] = None"
| "firstIndex P (x # xs) = (if P x then Some 0 else map_option Suc (firstIndex P xs))"

text \<open>
  \<open>getPlayerByID\<close> and \<open>getMatchByID\<close> compare with \<open>==\<close>; a \<open>null\<close> or missing id
  equals no number.  Identifiers are integers here, and the digits of a cookie stand for
  the integer they write: this is what \<open>==\<close> compares as long as the identifiers are
  below \<open>2^53\<close>, where the numbers of the source are exact.
\<close>

definition getPlayerByID :: "'st server \<Rightarrow> int option \<Rightarrow> ref option" where
  "getPlayerByID s ident =
     (case ident of None \<Rightarrow> None | Some i \<Rightarrow> firstIndex (\<lambda>p. p_id p = i) (players s))"

definition getMatchByID :: "'st server \<Rightarrow> int option \<Rightarrow> ref option" where
  "getMatchByID s ident =
     (case ident of None \<Rightarrow> None | Some i \<Rightarrow> firstIndex (\<lambda>m. m_id m = i) (matches s))"

text \<open>The test of \<open>getOpenMatchByHostSlug\<close> on one match, for the slug already normalised.\<close>

definition openWithSlug :: "player list \<Rightarrow> string \<Rightarrow> 'st match \<Rightarrow> bool" where
  "openWithSlug ps hs m =
     (\<not> m_isOver m \<and> m_guest m = None \<and>
      ((truthyS (m_hostSlug m) \<and> iccjSlugify (orEmpty (m_hostSlug m)) = hs) \<or>
       (truthyS (m_hostName m) \<and> iccjSlugify (orEmpty (m_hostName m)) = hs) \<or>
       (case m_host m of None \<Rightarrow> False
        | Some h \<Rightarrow> p_name (ps ! h) \<noteq> [] \<and> iccjSlugify (p_name (ps ! h)) = hs)))"

definition getOpenMatchByHostSlug :: "'st server \<Rightarrow> string \<Rightarrow> ref option" where
  "getOpenMatchByHostSlug s hostSlug0 =
     (let hs = iccjSlugify hostSlug0 in
      if hs = [] then None
      else firstIndex (openWithSlug (players s) hs) (matches s))"

definition sendMessage :: "socket_id \<Rightarrow> message \<Rightarrow> payload \<Rightarrow> emission list" where
  "sendMessage k msg ps = [\<lparr>to_socket = k, em_message = msg, em_params = ps\<rparr>]"

definition sendPlayerMessage ::
  "'st server \<Rightarrow> ref \<Rightarrow> message \<Rightarrow> payload \<Rightarrow> emission list" where
  "sendPlayerMessage s pr msg ps =
     (case p_socketID (players s ! pr) of
        None \<Rightarrow> []
      | Some k \<Rightarrow> if k \<in> clients s then sendMessage k msg ps else [])"

definition sendMatchMessage ::
  "'st server \<Rightarrow> ref \<Rightarrow> message \<Rightarrow> payload \<Rightarrow> emission list" where
  "sendMatchMessage s mr msg ps =
     concat (map (\<lambda>pid. case getPlayerByID s (Some pid) of
                           None \<Rightarrow> []
                         | Some pr \<Rightarrow> sendPlayerMessage s pr msg ps)
                 (m_players (matches s ! mr)))"

definition sendOthersMessage ::
  "'st server \<Rightarrow> ref \<Rightarrow> int \<Rightarrow> message \<Rightarrow> payload \<Rightarrow> emission list" where
  "sendOthersMessage s mr exceptPlayerID msg ps =
     concat (map (\<lambda>pid. case getPlayerByID s (Some pid) of
                           None \<Rightarrow> []
                         | Some pr \<Rightarrow> sendPlayerMessage s pr msg ps)
                 (filter (\<lambda>pid. pid \<noteq> exceptPlayerID) (m_players (matches s ! mr))))"

text \<open>Running \<open>reply.sendAfter\<close>.\<close>

definition runDeferred :: "'st server \<Rightarrow> deferred \<Rightarrow> emission list" where
  "runDeferred s d =
     (case d of
        ToPlayer pr msg ps \<Rightarrow> sendPlayerMessage s pr msg (Event ps)
      | ToMatch mr msgs \<Rightarrow>
          concat (map (\<lambda>(msg, ps). sendMatchMessage s mr msg (Event ps)) msgs))"


subsection \<open>Session handlers: guests and matches\<close>

text \<open>A handler that sets \<open>reply.errorMessage\<close> and returns \<open>false\<close>.\<close>

definition refuse :: "reply \<Rightarrow> 'st server \<Rightarrow> string \<Rightarrow> 'st outcome" where
  "refuse reply s text = (Return False, reply\<lparr>errorMessage := Some text\<rparr>, s, [])"

text \<open>The end of \<open>handleCreateGuest\<close>: a new Player for the connection.\<close>

definition createGuestPlayer ::
  "'st server \<Rightarrow> socket_id \<Rightarrow> string \<Rightarrow> reply \<Rightarrow> int \<Rightarrow> 'st outcome" where
  "createGuestPlayer s k desiredName reply newID =
     (let player = (Player_createNew newID)
            \<lparr>p_name := (if desiredName \<noteq> [] then desiredName else ''Player '' @ showInt newID),
             p_socketID := Some k\<rparr>;
          pr = length (players s);
          s1 = s\<lparr>players := players s @ [player]\<rparr>;
          s2 = setSocketPlayer s1 k pr
      in (Return True, reply\<lparr>r_player := Some pr, reconnected := Some False\<rparr>, s2, []))"

text \<open>\<open>handleCreateGuest\<close>, line 304: the display name the request asks for.\<close>

definition desiredNameOf :: "params option \<Rightarrow> string" where
  "desiredNameOf ps =
     (case ps of None \<Rightarrow> []
      | Some p \<Rightarrow> if truthyS (playerName p)
                  then iccjSafeDisplayName (orEmpty (playerName p)) else [])"

text \<open>
  \<open>handleCreateGuest\<close>, lines 306-317: the returning player, by the id of the request
  when the connection has no player yet, else by the cookie; and the server after the
  write to \<open>player.socketID\<close> that the first branch makes.
\<close>

definition findReturning ::
  "'st server \<Rightarrow> socket_id \<Rightarrow> params option \<Rightarrow> ref option \<times> 'st server" where
  "findReturning s k ps =
     (if getSocketPlayer s k = None \<and>
         (case ps of None \<Rightarrow> False | Some p \<Rightarrow> truthyN (playerID p))
      then (case getPlayerByID s (case ps of None \<Rightarrow> None | Some p \<Rightarrow> playerID p) of
              None \<Rightarrow> (None, s)
            | Some pr \<Rightarrow> (Some pr, updPlayer s pr (\<lambda>p. p\<lparr>p_socketID := Some k\<rparr>)))
      else if truthyS (sk_cookie (sockets s k))
      then (getPlayerByID s (cookiePlayerID (orEmpty (sk_cookie (sockets s k)))), s)
      else (None, s))"

text \<open>\<open>handleCreateGuest\<close>, lines 327-339: the connection takes up the pending match.\<close>

definition rebindGuest ::
  "'st server \<Rightarrow> socket_id \<Rightarrow> reply \<Rightarrow> ref \<Rightarrow> ref \<Rightarrow> 'st rule \<Rightarrow> 'st outcome" where
  "rebindGuest s2 k reply pr mr rule =
     (let s3 = updPlayer s2 pr (\<lambda>p. p\<lparr>p_socketID := Some k\<rparr>);
          s4 = setSocketPlayer s3 k pr;
          s5 = setSocketMatch s4 k mr;
          s6 = setSocketRule s5 k rule
      in (Return True,
          reply\<lparr>sendAfter := Some (ToPlayer pr EVENT_MATCH_START (MatchOnly mr)),
                r_player := Some pr,
                reconnected := Some True\<rparr>,
          s6, []))"

definition handleCreateGuest ::
  "'st env \<Rightarrow> 'st server \<Rightarrow> socket_id \<Rightarrow> params option \<Rightarrow> reply \<Rightarrow> int \<Rightarrow> 'st outcome" where
  "handleCreateGuest E s k ps reply newID =
     (let desiredName = desiredNameOf ps;
          found = findReturning s k ps;
          s1 = snd found
      in case fst found of
           None \<Rightarrow> createGuestPlayer s1 k desiredName reply newID
         | Some pr \<Rightarrow>
             (let s2 = (if desiredName \<noteq> [] then updPlayer s1 pr (\<lambda>p. p\<lparr>p_name := desiredName\<rparr>)
                        else s1)
              in case getMatchByID s2 (p_currentMatch (players s2 ! pr)) of
                   None \<Rightarrow> createGuestPlayer s2 k desiredName reply newID
                 | Some mr \<Rightarrow>
                     if m_isOver (matches s2 ! mr)
                     then createGuestPlayer s2 k desiredName reply newID
                     else (case loadRule E (m_ruleName (matches s2 ! mr)) of
                             None \<Rightarrow> (Throw, reply, s2, [])
                           | Some rule \<Rightarrow> rebindGuest s2 k reply pr mr rule)))"

definition matchEntry :: "'st match \<Rightarrow> match_entry" where
  "matchEntry m =
     \<lparr>e_id = m_id m,
      e_name = (if truthyS (m_name m) then orEmpty (m_name m) else ''Match '' @ showInt (m_id m)),
      e_slug = (if truthyS (m_slug m) then m_slug m else None),
      e_hostSlug = (if truthyS (m_hostSlug m) then m_hostSlug m else None),
      e_isOpen = (m_guest m = None)\<rparr>"

definition handleGetMatchList ::
  "'st server \<Rightarrow> socket_id \<Rightarrow> params option \<Rightarrow> reply \<Rightarrow> 'st outcome" where
  "handleGetMatchList s k ps reply =
     (Return True,
      reply\<lparr>r_list := Some (map matchEntry (filter (\<lambda>m. \<not> m_isOver m) (matches s)))\<rparr>,
      s, [])"

text \<open>
  \<open>handleCreateMatch\<close>, lines 418-430: an open match with the slug exists and is reused.
\<close>

definition reuseOpenMatch ::
  "'st server \<Rightarrow> socket_id \<Rightarrow> reply \<Rightarrow> ref \<Rightarrow> 'st rule \<Rightarrow> string \<Rightarrow> ref \<Rightarrow> 'st outcome" where
  "reuseOpenMatch s1 k reply pr rule hs ex =
     (let s2 = setSocketMatch s1 k ex;
          s3 = setSocketRule s2 k rule;
          m = matches s1 ! ex
      in (Return True,
          reply\<lparr>r_player := Some pr,
                r_ruleName := Some ''RuleBgCasual'',
                r_matchID := Some (m_id m),
                r_hostSlug := Some hs,
                r_slug := (if truthyS (m_slug m) then m_slug m else Some hs),
                r_matchName := (if truthyS (m_name m) then m_name m
                                else Some (p_name (players s1 ! pr))),
                reused := Some True\<rparr>,
          s3, []))"

text \<open>
  \<open>handleCreateMatch\<close>, lines 432-461: a new match, hosted by the player, with a game
  that waits for the guest.
\<close>

definition hostedMatch :: "'st env \<Rightarrow> 'st rule \<Rightarrow> string \<Rightarrow> string \<Rightarrow> ref \<Rightarrow> int \<Rightarrow> int \<Rightarrow> 'st match" where
  "hostedMatch E rule pname hs pr pid newMatchID =
     Match_addHostPlayer
       ((Match_createNew rule newMatchID (matchLength E))
          \<lparr>m_ruleName := ''RuleBgCasual'',
           m_hostName := Some pname,
           m_hostSlug := Some hs,
           m_guestName := None,
           m_slug := Some hs,
           m_name := Some (if pname \<noteq> [] then pname else ''Match '' @ showInt newMatchID)\<rparr>)
       pr pid"

definition openNewMatch ::
  "'st env \<Rightarrow> 'st server \<Rightarrow> socket_id \<Rightarrow> reply \<Rightarrow> ref \<Rightarrow> 'st rule \<Rightarrow> string \<Rightarrow> int \<Rightarrow> int
   \<Rightarrow> 'st outcome" where
  "openNewMatch E s1 k reply pr rule hs newMatchID newGameID =
     (let m1 = hostedMatch E rule (p_name (players s1 ! pr)) hs pr (p_id (players s1 ! pr))
                 newMatchID;
          s2 = updPlayer s1 pr
                 (\<lambda>p. p\<lparr>p_currentMatch := Some (m_id m1),
                        p_currentPieceType := Some WHITE\<rparr>);
          mr = length (matches s2);
          s3 = s2\<lparr>matches := matches s2 @ [m1]\<rparr>;
          s4 = updMatch s3 mr (\<lambda>m. Match_createNewGame m rule newGameID);
          s5 = setSocketMatch s4 k mr;
          s6 = setSocketRule s5 k rule
      in (Return True,
          reply\<lparr>r_player := Some pr,
                r_ruleName := Some ''RuleBgCasual'',
                r_matchID := Some (m_id m1),
                r_hostSlug := Some hs,
                r_slug := m_slug m1,
                r_matchName := m_name m1\<rparr>,
          s6, []))"

definition handleCreateMatch ::
  "'st env \<Rightarrow> 'st server \<Rightarrow> socket_id \<Rightarrow> params option \<Rightarrow> reply \<Rightarrow> int \<Rightarrow> int \<Rightarrow> 'st outcome" where
  "handleCreateMatch E s k ps reply newMatchID newGameID =
     (case getSocketPlayer s k of
        None \<Rightarrow> refuse reply s ''Player not found!''
      | Some pr \<Rightarrow>
          (case loadRule E ''RuleBgCasual'' of
             None \<Rightarrow> (Throw, reply, s, [])
           | Some rule \<Rightarrow>
               (let dn = (case ps of None \<Rightarrow> []
                          | Some p \<Rightarrow> if truthyS (playerName p)
                                      then iccjSafeDisplayName (orEmpty (playerName p)) else []);
                    s1 = (if dn \<noteq> [] then updPlayer s pr (\<lambda>p. p\<lparr>p_name := dn\<rparr>) else s);
                    hs0 = (case ps of None \<Rightarrow> []
                           | Some p \<Rightarrow> if truthyS (hostSlug p)
                                       then iccjSlugify (orEmpty (hostSlug p)) else []);
                    hs = (if hs0 = [] then iccjSlugify (p_name (players s1 ! pr)) else hs0)
                in if hs = [] then refuse reply s1 ''Host name is required.''
                   else
                     (case getOpenMatchByHostSlug s1 hs of
                        Some ex \<Rightarrow> reuseOpenMatch s1 k reply pr rule hs ex
                      | None \<Rightarrow> openNewMatch E s1 k reply pr rule hs newMatchID newGameID))))"

text \<open>
  \<open>handleJoinMatch\<close>, lines 473-479: the match a request addresses, by slug or by id.
\<close>

definition joinTarget :: "'st server \<Rightarrow> params option \<Rightarrow> ref option" where
  "joinTarget s ps =
     (case ps of
        None \<Rightarrow> None
      | Some p \<Rightarrow>
          if truthyS (hostSlug p)
          then getOpenMatchByHostSlug s (iccjSlugify (orEmpty (hostSlug p)))
          else if truthyN (matchID p) then getMatchByID s (matchID p)
          else None)"

text \<open>The names a match takes when the guest sits down (lines 505-506).\<close>

definition joinHostName :: "'st server \<Rightarrow> ref \<Rightarrow> string" where
  "joinHostName s mr =
     (let m = matches s ! mr in
      if truthyS (m_hostName m) then orEmpty (m_hostName m)
      else (case m_host m of
              None \<Rightarrow> ''Host''
            | Some h \<Rightarrow> if p_name (players s ! h) \<noteq> [] then p_name (players s ! h)
                        else ''Host''))"

definition joinGuestName :: "'st server \<Rightarrow> ref \<Rightarrow> string" where
  "joinGuestName s gp = (if p_name (players s ! gp) \<noteq> [] then p_name (players s ! gp)
                         else ''Guest'')"

text \<open>
  \<open>handleJoinMatch\<close>, lines 500-508: the guest is seated and the match takes its names.
\<close>

definition seated :: "'st server \<Rightarrow> ref \<Rightarrow> ref \<Rightarrow> 'st server" where
  "seated s mr gp =
     (let s1 = updMatch s mr (\<lambda>m. Match_addGuestPlayer m gp (p_id (players s ! gp)));
          s2 = updPlayer s1 gp
                 (\<lambda>p. p\<lparr>p_currentMatch := Some (m_id (matches s1 ! mr)),
                        p_currentPieceType := Some BLACK\<rparr>);
          hn = joinHostName s2 mr;
          gn = joinGuestName s2 gp
      in updMatch s2 mr
           (\<lambda>m. m\<lparr>m_hostName := Some hn,
                  m_guestName := Some gn,
                  m_slug := Some (iccjMatchSlug (Some hn) (Some gn)),
                  m_name := Some (hn @ '' vs '' @ gn)\<rparr>))"

text \<open>\<open>handleJoinMatch\<close>, lines 500-529: the guest is seated and the match starts.\<close>

definition seatGuest ::
  "'st server \<Rightarrow> socket_id \<Rightarrow> reply \<Rightarrow> ref \<Rightarrow> ref \<Rightarrow> 'st rule \<Rightarrow> 'st outcome" where
  "seatGuest s k reply mr gp rule =
     (let s3 = seated s mr gp
      in case m_currentGame (matches s3 ! mr) of
           None \<Rightarrow> (Throw, reply, s3, [])
         | Some g \<Rightarrow>
             (let s4 = updMatch s3 mr
                         (\<lambda>m. m\<lparr>m_currentGame :=
                                  Some (g\<lparr>g_hasStarted := True,
                                          g_turnPlayer := m_host m,
                                          g_turnNumber := 1\<rparr>)\<rparr>);
                  s5 = setSocketMatch s4 k mr;
                  s6 = setSocketRule s5 k rule
              in (Return True,
                  reply\<lparr>r_ruleName := Some ''RuleBgCasual'',
                        r_host := m_host (matches s6 ! mr),
                        r_guest := Some gp,
                        r_slug := m_slug (matches s6 ! mr),
                        r_matchName := m_name (matches s6 ! mr),
                        sendAfter := Some (ToMatch mr [(EVENT_MATCH_START, MatchOnly mr)])\<rparr>,
                  s6, [])))"

definition handleJoinMatch ::
  "'st env \<Rightarrow> 'st server \<Rightarrow> socket_id \<Rightarrow> params option \<Rightarrow> reply \<Rightarrow> 'st outcome" where
  "handleJoinMatch E s k ps reply =
     (case joinTarget s ps of
        None \<Rightarrow> refuse reply s ''Match not found!''
      | Some mr \<Rightarrow>
          if m_guest (matches s ! mr) \<noteq> None then refuse reply s ''Match is full!''
          else
            (case getSocketPlayer s k of
               None \<Rightarrow> refuse reply s ''Player not found!''
             | Some gp \<Rightarrow>
                 (case loadRule E ''RuleBgCasual'' of
                    None \<Rightarrow> (Throw, reply, s, [])
                  | Some rule \<Rightarrow> seatGuest s k reply mr gp rule)))"

subsection \<open>Gameplay handlers\<close>

text \<open>\<open>n >= length\<close> and \<open>n + score\<close> on a number that may be \<open>undefined\<close> or \<open>NaN\<close>.\<close>

definition numGe :: "int option \<Rightarrow> int \<Rightarrow> bool" where
  "numGe x n = (case x of None \<Rightarrow> False | Some v \<Rightarrow> v \<ge> n)"

definition numAdd :: "int option \<Rightarrow> int \<Rightarrow> int option" where
  "numAdd x n = (case x of None \<Rightarrow> None | Some v \<Rightarrow> Some (v + n))"

definition handleRollDice ::
  "'st server \<Rightarrow> socket_id \<Rightarrow> params option \<Rightarrow> reply \<Rightarrow> nat \<Rightarrow> 'st outcome" where
  "handleRollDice s k ps reply rnd =
     (case getSocketMatch s k of
        None \<Rightarrow> (Throw, reply, s, [])
      | Some mr \<Rightarrow>
          (case m_currentGame (matches s ! mr) of
             None \<Rightarrow> refuse reply s
                      (''Match with ID '' @ showInt (m_id (matches s ! mr)) @ '' has no current game!'')
           | Some game \<Rightarrow>
               if \<not> g_hasStarted game
               then refuse reply s (''Game with ID '' @ showInt (g_id game) @ '' is not yet started!'')
               else
                 (case getSocketPlayer s k of
                    None \<Rightarrow> (Throw, reply, s, [])
                  | Some pr \<Rightarrow>
                      if (case g_turnPlayer game of
                            None \<Rightarrow> True
                          | Some t \<Rightarrow> p_id (players s ! t) \<noteq> p_id (players s ! pr))
                      then refuse reply s
                             (''Cannot roll dice it isn'' @ [char_of (39 :: nat)] @ ''t player '' @
                              showInt (p_id (players s ! pr)) @ '' turn!'')
                      else if Game_diceWasRolled game
                      then refuse reply s ''Dice was already rolled!''
                      else
                        (case getSocketRule s k of
                           None \<Rightarrow> (Throw, reply, s, [])
                         | Some rule \<Rightarrow>
                             (let dice = rollDice rule game rnd;
                                  game1 = Game_snapshotState (game\<lparr>g_turnDice := Some dice\<rparr>);
                                  s1 = updMatch s mr (\<lambda>m. m\<lparr>m_currentGame := Some game1\<rparr>)
                              in (Return True,
                                  reply\<lparr>r_player := g_turnPlayer game1, r_dice := Some dice\<rparr>,
                                  s1,
                                  sendOthersMessage s1 mr (p_id (players s1 ! pr))
                                    EVENT_DICE_ROLL (Event (MatchOnly mr))))))))"

definition handleMovePiece ::
  "'st env \<Rightarrow> 'st server \<Rightarrow> socket_id \<Rightarrow> params option \<Rightarrow> reply \<Rightarrow> 'st outcome" where
  "handleMovePiece E s k ps reply =
     (case ps of
        None \<Rightarrow> (Throw, reply, s, [])
      | Some p \<Rightarrow>
          (case piece p of
             None \<Rightarrow> refuse reply s ''No piece selected!''
           | Some pc \<Rightarrow>
               (case getSocketMatch s k of
                  None \<Rightarrow> (Throw, reply, s, [])
                | Some mr \<Rightarrow>
                    (case m_currentGame (matches s ! mr) of
                       None \<Rightarrow> refuse reply s ''Match created, but current game is null!''
                     | Some game \<Rightarrow>
                         if (case moveSequence p of
                               None \<Rightarrow> False
                             | Some n \<Rightarrow> n < g_moveSequence game)
                         then refuse reply s ''This move has already been played!''
                         else
                           (case getSocketRule s k of
                              None \<Rightarrow> (Throw, reply, s, [])
                            | Some rule \<Rightarrow>
                                if \<not> validateMove rule (players s) game (getSocketPlayer s k)
                                       pc (steps p)
                                then refuse reply s ''Requested move is not valid!''
                                else
                                  (let actionList =
                                         getMoveActions rule (boardState game) pc (steps p)
                                   in if actionList = []
                                      then refuse reply s ''Requested move is not allowed!''
                                      else
                                        (case applyMoveActions rule (boardState game) actionList of
                                           None \<Rightarrow>
                                             (if debug E then Throw else Return False,
                                              reply\<lparr>r_piece := Some pc, r_type := ptype p,
                                                    r_steps := steps p,
                                                    r_moveActionList := Some []\<rparr>,
                                              s, [])
                                         | Some st \<Rightarrow>
                                             (let game1 =
                                                    game\<lparr>g_cells := (g_cells game)[g_state game := st],
                                                         g_turnDice :=
                                                           markAsPlayed rule (g_turnDice game) (steps p),
                                                         g_moveSequence := g_moveSequence game + 1\<rparr>;
                                                  s1 = updMatch s mr
                                                         (\<lambda>m. m\<lparr>m_currentGame := Some game1\<rparr>)
                                              in (Return True,
                                                  reply\<lparr>r_piece := Some pc, r_type := ptype p,
                                                        r_steps := steps p,
                                                        r_moveActionList := Some actionList\<rparr>,
                                                  s1,
                                                  sendMatchMessage s1 mr EVENT_PIECE_MOVE
                                                    (Event (PieceMove mr pc (ptype p) (steps p)
                                                              actionList)))))))))))"

definition endGame ::
  "'st server \<Rightarrow> socket_id \<Rightarrow> ref option \<Rightarrow> bool \<Rightarrow> reply \<Rightarrow> int \<Rightarrow> 'st outcome" where
  "endGame s k winner resigned reply newGameID =
     (case getSocketMatch s k of
        None \<Rightarrow> (Throw, reply, s, [])
      | Some mr \<Rightarrow>
          (case getSocketRule s k of
             None \<Rightarrow> (Throw, reply, s, [])
           | Some rule \<Rightarrow>
               (case m_currentGame (matches s ! mr) of
                  None \<Rightarrow> (Throw, reply, s, [])
                | Some game \<Rightarrow>
                    (case winner of
                       None \<Rightarrow> (Throw, reply, s, [])
                     | Some w \<Rightarrow>
                         (let score = getGameScore rule (boardState game) (players s) winner;
                              c = p_currentPieceType (players s ! w);
                              m = matches s ! mr;
                              m1 = m\<lparr>m_score := (m_score m)(c := numAdd (m_score m c) score)\<rparr>;
                              m2 = (if numGe (m_score m1 c) (m_length m1)
                                    then m1\<lparr>m_isOver := True\<rparr> else m1)
                          in if m_isOver m2
                             then (Return True,
                                   reply\<lparr>sendAfter :=
                                           Some (ToMatch mr
                                                   [(EVENT_MATCH_OVER,
                                                     MatchResult mr winner resigned)])\<rparr>,
                                   updMatch s mr (\<lambda>x. m2), [])
                             else
                               (let m3 = Match_createNewGame m2 rule newGameID;
                                    m4 = m3\<lparr>m_currentGame :=
                                              map_option
                                                (\<lambda>g. g\<lparr>g_hasStarted := True,
                                                       g_turnPlayer := winner,
                                                       g_turnNumber := 1\<rparr>)
                                                (m_currentGame m3)\<rparr>
                                in (Return True,
                                    reply\<lparr>sendAfter :=
                                            Some (ToMatch mr
                                                    [(EVENT_GAME_OVER,
                                                      MatchResult mr winner resigned),
                                                     (EVENT_GAME_RESTART,
                                                      GameRestart mr resigned)])\<rparr>,
                                    updMatch s mr (\<lambda>x. m4), [])))))))"

text \<open>\<open>handleConfirmMoves\<close> and \<open>handleResignGame\<close> return \<open>true\<close> whatever \<open>endGame\<close> returns.\<close>

definition returningTrue :: "'st outcome \<Rightarrow> 'st outcome" where
  "returningTrue out =
     (case out of (c, rest) \<Rightarrow> ((case c of Throw \<Rightarrow> Throw | Return b \<Rightarrow> Return True), rest))"

definition handleConfirmMoves ::
  "'st server \<Rightarrow> socket_id \<Rightarrow> params option \<Rightarrow> reply \<Rightarrow> int \<Rightarrow> 'st outcome" where
  "handleConfirmMoves s k ps reply newGameID =
     (case getSocketMatch s k of
        None \<Rightarrow> (Throw, reply, s, [])
      | Some mr \<Rightarrow>
          (case getSocketRule s k of
             None \<Rightarrow> (Throw, reply, s, [])
           | Some rule \<Rightarrow>
               if \<not> validateConfirm rule (players s) (m_currentGame (matches s ! mr))
                      (getSocketPlayer s k)
               then refuse reply s ''Confirming moves is not allowed!''
               else
                 (case m_currentGame (matches s ! mr) of
                    None \<Rightarrow> (Throw, reply, s, [])
                  | Some game \<Rightarrow>
                      if hasWon rule (boardState game) (players s) (getSocketPlayer s k)
                      then returningTrue
                             (endGame s k (getSocketPlayer s k) False reply newGameID)
                      else
                        (let s1 = updMatch s mr (nextTurn rule (players s))
                         in (Return True, reply, s1,
                             sendMatchMessage s1 mr EVENT_TURN_START (Event (MatchOnly mr)))))))"

definition handleUndoMoves ::
  "'st server \<Rightarrow> socket_id \<Rightarrow> params option \<Rightarrow> reply \<Rightarrow> 'st outcome" where
  "handleUndoMoves s k ps reply =
     (case getSocketMatch s k of
        None \<Rightarrow> (Throw, reply, s, [])
      | Some mr \<Rightarrow>
          (case getSocketRule s k of
             None \<Rightarrow> (Throw, reply, s, [])
           | Some rule \<Rightarrow>
               if \<not> validateUndo rule (players s) (m_currentGame (matches s ! mr))
                      (getSocketPlayer s k)
               then refuse reply s ''Undo moves is not allowed!''
               else
                 (case m_currentGame (matches s ! mr) of
                    None \<Rightarrow> (Throw, reply, s, [])
                  | Some game \<Rightarrow>
                      (let s1 = updMatch s mr
                                  (\<lambda>m. m\<lparr>m_currentGame := Some (Game_restoreState game)\<rparr>)
                       in (Return True, reply, s1,
                           sendMatchMessage s1 mr EVENT_UNDO_MOVES (Event (MatchOnly mr)))))))"

text \<open>The other player of the match, as both resignation handlers compute it.\<close>

definition otherPlayerOf :: "'st server \<Rightarrow> ref \<Rightarrow> ref option \<Rightarrow> ref option" where
  "otherPlayerOf s mr player =
     (if Match_isHost (players s) (matches s ! mr) player
      then m_guest (matches s ! mr) else m_host (matches s ! mr))"

definition handleResignGame ::
  "'st server \<Rightarrow> socket_id \<Rightarrow> params option \<Rightarrow> reply \<Rightarrow> int \<Rightarrow> 'st outcome" where
  "handleResignGame s k ps reply newGameID =
     (case getSocketMatch s k of
        None \<Rightarrow> (Throw, reply, s, [])
      | Some mr \<Rightarrow>
          returningTrue
            (endGame s k (otherPlayerOf s mr (getSocketPlayer s k)) True reply newGameID))"

definition handleResignMatch ::
  "'st server \<Rightarrow> socket_id \<Rightarrow> params option \<Rightarrow> reply \<Rightarrow> 'st outcome" where
  "handleResignMatch s k ps reply =
     (case getSocketMatch s k of
        None \<Rightarrow> (Throw, reply, s, [])
      | Some mr \<Rightarrow>
          (Return True,
           reply\<lparr>sendAfter :=
                   Some (ToMatch mr
                           [(EVENT_MATCH_OVER,
                             MatchResult mr (otherPlayerOf s mr (getSocketPlayer s k)) True)])\<rparr>,
           s, []))"


subsection \<open>The dispatcher\<close>

definition newReply :: "params option \<Rightarrow> reply" where
  "newReply ps =
     \<lparr>result = False,
      r_clientMsgSeq = (case ps of None \<Rightarrow> None
                        | Some p \<Rightarrow> if truthyN (clientMsgSeq p) then clientMsgSeq p else None),
      errorMessage = None, r_player = None, reconnected = None, r_ruleName = None,
      r_matchID = None, r_hostSlug = None, r_slug = None, r_matchName = None, reused = None,
      r_host = None, r_guest = None, r_dice = None, r_piece = None, r_type = None,
      r_steps = None, r_moveActionList = None, r_list = None, r_match = None,
      sendAfter = None\<rparr>"

text \<open>
  The values a request draws from outside: the outcome of the dice, and the identifiers
  of the objects it may create.
\<close>

record drawn =
  d_rnd :: nat
  d_newID :: int
  d_newGameID :: int

definition dispatch ::
  "'st env \<Rightarrow> 'st server \<Rightarrow> socket_id \<Rightarrow> message \<Rightarrow> params option \<Rightarrow> reply \<Rightarrow> drawn
   \<Rightarrow> 'st outcome option" where
  "dispatch E s k msg ps reply d =
     (case msg of
        CREATE_GUEST \<Rightarrow> Some (handleCreateGuest E s k ps reply (d_newID d))
      | GET_MATCH_LIST \<Rightarrow> Some (handleGetMatchList s k ps reply)
      | CREATE_MATCH \<Rightarrow> Some (handleCreateMatch E s k ps reply (d_newID d) (d_newGameID d))
      | JOIN_MATCH \<Rightarrow> Some (handleJoinMatch E s k ps reply)
      | ROLL_DICE \<Rightarrow> Some (handleRollDice s k ps reply (d_rnd d))
      | MOVE_PIECE \<Rightarrow> Some (handleMovePiece E s k ps reply)
      | CONFIRM_MOVES \<Rightarrow> Some (handleConfirmMoves s k ps reply (d_newGameID d))
      | UNDO_MOVES \<Rightarrow> Some (handleUndoMoves s k ps reply)
      | RESIGN_GAME \<Rightarrow> Some (handleResignGame s k ps reply (d_newGameID d))
      | RESIGN_MATCH \<Rightarrow> Some (handleResignMatch s k ps reply)
      | _ \<Rightarrow> None)"

text \<open>
  \<open>handleRequest\<close>, inside the \<open>try\<close> of \<open>createHandler\<close>: an unknown message and an
  exception send no reply; otherwise the reply goes to the requesting connection, then
  \<open>reply.sendAfter\<close> runs.  The closure is no part of what the reply carries over the
  wire.  The result is the new server and everything emitted, in order.
\<close>

definition handleRequest ::
  "'st env \<Rightarrow> 'st server \<Rightarrow> socket_id \<Rightarrow> message \<Rightarrow> params option \<Rightarrow> drawn
   \<Rightarrow> 'st server \<times> emission list" where
  "handleRequest E s k msg ps d =
     (case dispatch E s k msg ps (newReply ps) d of
        None \<Rightarrow> (s, [])
      | Some (Throw, reply, s1, out) \<Rightarrow> (s1, out)
      | Some (Return b, reply, s1, out) \<Rightarrow>
          (let reply1 = reply\<lparr>result := b\<rparr>;
               reply2 = (case getSocketMatch s1 k of
                           None \<Rightarrow> reply1
                         | Some m \<Rightarrow> reply1\<lparr>r_match := Some m\<rparr>)
           in (s1,
               out @ sendMessage k msg (Reply (reply2\<lparr>sendAfter := None\<rparr>)) @
               (case sendAfter reply2 of None \<Rightarrow> [] | Some a \<Rightarrow> runDeferred s1 a))))"


subsection \<open>A run of accepted moves\<close>

text \<open>
  MOVE_PIECE requests handled one after the other, each on the server the previous one
  left; \<open>None\<close> as soon as one of them is not accepted.
\<close>

fun acceptedMoves ::
  "'st env \<Rightarrow> 'st server \<Rightarrow> (socket_id \<times> params option \<times> reply) list \<Rightarrow> 'st server option" where
  "acceptedMoves E s [] = Some s"
| "acceptedMoves E s ((k, ps, reply) # rest) =
     (case handleMovePiece E s k ps reply of
        (Return True, reply', s', out) \<Rightarrow> acceptedMoves E s' rest
      | _ \<Rightarrow> None)"

text \<open>
  What a game keeps of a snapshot: the retained State is the object at address \<open>p\<close>,
  it holds the value \<open>v\<close>, and the board State the moves write to is another object.
\<close>

definition snapshotKept :: "nat \<Rightarrow> 'st \<Rightarrow> 'st game \<Rightarrow> bool" where
  "snapshotKept p v g =
     (g_previousState g = Some p \<and> p < length (g_cells g) \<and> g_cells g ! p = v \<and>
      g_state g \<noteq> p)"

section \<open>A worked instance\<close>

text \<open>
  A small rule variant on a board that is a counter, and a server in which Alice
  (connection \<open>sa\<close>, white, the host) plays Bob (connection \<open>sb\<close>, black) in match 10;
  two moves have been played in the game and it is Alice's turn to roll.
\<close>

definition exRule :: "nat rule" where
  "exRule =
     \<lparr>rule_name = ''RuleBgCasual'',
      initialState = 0,
      rollDice = (\<lambda>g rnd. [int (rnd mod 6) + 1, int ((rnd div 6) mod 6) + 1]),
      validateMove = (\<lambda>ps g pl pc st. g_turnDice g \<noteq> None \<and> pl \<noteq> None \<and> pl = g_turnPlayer g),
      getMoveActions = (\<lambda>st pc stp. case stp of None \<Rightarrow> []
                                      | Some n \<Rightarrow> [MoveAction pc (int st) (int st + n) False]),
      applyMoveActions = (\<lambda>st acts. Some (st + length acts)),
      markAsPlayed = (\<lambda>d stp. case (d, stp) of (Some ds, Some n) \<Rightarrow> Some (remove1 n ds)
                                | _ \<Rightarrow> d),
      validateConfirm = (\<lambda>ps g pl. case g of None \<Rightarrow> False
                                    | Some x \<Rightarrow> pl \<noteq> None \<and> pl = g_turnPlayer x \<and>
                                               g_turnDice x = Some []),
      validateUndo = (\<lambda>ps g pl. case g of None \<Rightarrow> False
                                 | Some x \<Rightarrow> pl \<noteq> None \<and> pl = g_turnPlayer x \<and>
                                            g_turnDice x \<noteq> None),
      hasWon = (\<lambda>st ps pl. st \<ge> 15),
      getGameScore = (\<lambda>st ps w. 1),
      nextTurn = (\<lambda>ps m. m)\<rparr>"

definition exEnv :: "nat env" where
  "exEnv =
     \<lparr>loadRule = (\<lambda>n. if n = ''RuleBgCasual'' then Some exRule else None),
      debug = False,
      matchLength = 1\<rparr>"

definition exAlice :: player where
  "exAlice = \<lparr>p_id = 1, p_name = ''Alice'', p_socketID = Some ''sa'',
              p_currentMatch = Some 10, p_currentPieceType = Some WHITE\<rparr>"

definition exBob :: player where
  "exBob = \<lparr>p_id = 2, p_name = ''Bob'', p_socketID = Some ''sb'',
            p_currentMatch = Some 10, p_currentPieceType = Some BLACK\<rparr>"

definition exGame :: "nat game" where
  "exGame = \<lparr>g_id = 100, g_cells = [2, 0], g_state = 0, g_previousState = Some 1,
             g_hasStarted = True, g_turnPlayer = Some 0, g_turnNumber = 3,
             g_turnDice = None, g_moveSequence = 2\<rparr>"

definition exMatch :: "nat match" where
  "exMatch =
     \<lparr>m_id = 10, m_host = Some 0, m_guest = Some 1, m_players = [1, 2],
      m_ruleName = ''RuleBgCasual'',
      m_score = (\<lambda>c. case c of None \<Rightarrow> None | Some x \<Rightarrow> Some 0),
      m_length = 1, m_currentGame = Some exGame, m_isOver = False,
      m_hostName = Some ''Alice'', m_hostSlug = Some ''alice'', m_guestName = Some ''Bob'',
      m_slug = Some ''alice-vs-bob'', m_name = Some ''Alice vs Bob''\<rparr>"

definition exNoSocket :: "nat socket" where
  "exNoSocket = \<lparr>sk_player = None, sk_match = None, sk_rule = None, sk_cookie = None\<rparr>"

definition exSockets :: "socket_id \<Rightarrow> nat socket" where
  "exSockets k =
     (if k = ''sa'' then \<lparr>sk_player = Some 0, sk_match = Some 0, sk_rule = Some exRule,
                           sk_cookie = None\<rparr>
      else if k = ''sb'' then \<lparr>sk_player = Some 1, sk_match = Some 0, sk_rule = Some exRule,
                                sk_cookie = None\<rparr>
      else exNoSocket)"

definition exServer :: "nat server" where
  "exServer = \<lparr>sockets = exSockets, clients = {''sa'', ''sb''},
               players = [exAlice, exBob], matches = [exMatch]\<rparr>"

text \<open>The same server once Alice has rolled 3 and 5.\<close>

definition exRolledGame :: "nat game" where
  "exRolledGame = exGame\<lparr>g_cells := [2, 0, 2], g_previousState := Some 2,
                         g_turnDice := Some [3, 5]\<rparr>"

definition exRolled :: "nat server" where
  "exRolled = exServer\<lparr>matches := [exMatch\<lparr>m_currentGame := Some exRolledGame\<rparr>]\<rparr>"

text \<open>And once Alice has moved a piece by 3, with the counter of the request at 2.\<close>

definition exMovedGame :: "nat game" where
  "exMovedGame = exRolledGame\<lparr>g_cells := [3, 0, 2], g_turnDice := Some [5],
                              g_moveSequence := 3\<rparr>"

definition exMoved :: "nat server" where
  "exMoved = exServer\<lparr>matches := [exMatch\<lparr>m_currentGame := Some exMovedGame\<rparr>]\<rparr>"

definition exParams :: params where
  "exParams = \<lparr>clientMsgSeq = Some 4, playerName = None, playerID = None, hostSlug = None,
               matchID = None, ruleName = None, piece = None, ptype = None, steps = None,
               moveSequence = None\<rparr>"

definition exDrawn :: drawn where
  "exDrawn = \<lparr>d_rnd = 26, d_newID = 3, d_newGameID = 101\<rparr>"


text \<open>
  The lobby before any match: the two players are connected, and no match exists.  And a
  variant of the server in which the match is played to two points.
\<close>

definition exLobbySockets :: "socket_id \<Rightarrow> nat socket" where
  "exLobbySockets k =
     (if k = ''sa'' then exNoSocket\<lparr>sk_player := Some 0\<rparr>
      else if k = ''sb'' then exNoSocket\<lparr>sk_player := Some 1\<rparr>
      else exNoSocket)"

definition exLobby :: "nat server" where
  "exLobby =
     \<lparr>sockets = exLobbySockets, clients = {''sa'', ''sb''},
      players = [exAlice\<lparr>p_name := ''Player 1'', p_currentMatch := None,
                         p_currentPieceType := None\<rparr>,
                 exBob\<lparr>p_currentMatch := None, p_currentPieceType := None\<rparr>],
      matches = []\<rparr>"

definition exLong :: "nat server" where
  "exLong = exServer\<lparr>matches := [exMatch\<lparr>m_length := 2\<rparr>]\<rparr>"

text \<open>
  The server after the roll, bound to a variant of the rule whose move actions never
  apply (the rule throws).
\<close>

definition exStuckRule :: "nat rule" where
  "exStuckRule = exRule\<lparr>applyMoveActions := (\<lambda>st acts. None)\<rparr>"

definition exStuck :: "nat server" where
  "exStuck =
     exRolled\<lparr>sockets :=
                (\<lambda>k. if k = ''sa'' \<or> k = ''sb'' then (exSockets k)\<lparr>sk_rule := Some exStuckRule\<rparr>
                     else exSockets k)\<rparr>"

text \<open>
  The server once the connection \<open>sb\<close> presents the cookie of player 1 (Alice's
  identifier), as a browser does that has played as Alice before.
\<close>

definition exCookie :: "nat server" where
  "exCookie =
     exServer\<lparr>sockets :=
                (\<lambda>k. if k = ''sb'' then (exSockets k)\<lparr>sk_cookie := Some ''player_id=1''\<rparr>
                     else exSockets k)\<rparr>"

text \<open>And the server after that connection has sent CREATE_GUEST.\<close>

definition exRebound :: "nat server" where
  "exRebound =
     (case handleCreateGuest exEnv exCookie ''sb'' (Some exParams) (newReply None) 3 of
        (c, r, s', out) \<Rightarrow> s')"

text \<open>The match of Alice while its guest seat is free, Bob being in the lobby.\<close>

definition exOpen :: "nat server" where
  "exOpen =
     \<lparr>sockets = (\<lambda>k. if k = ''sb'' then exNoSocket\<lparr>sk_player := Some 1\<rparr> else exSockets k),
      clients = {''sa'', ''sb''},
      players = [exAlice, exBob\<lparr>p_currentMatch := None, p_currentPieceType := None\<rparr>],
      matches = [exMatch\<lparr>m_guest := None, m_players := [1], m_guestName := None,
                         m_slug := None, m_name := None\<rparr>]\<rparr>"

section \<open>Properties\<close>

lemmas ex_defs = exRule_def exEnv_def exAlice_def exBob_def exGame_def exMatch_def
  exNoSocket_def exSockets_def exServer_def exRolledGame_def exRolled_def exParams_def
  exDrawn_def exLobbySockets_def exLobby_def exLong_def exMovedGame_def exMoved_def
  exStuckRule_def exStuck_def exCookie_def exOpen_def

lemmas sock_defs = getSocketMatch_def getSocketPlayer_def getSocketRule_def
  setSocketMatch_def setSocketPlayer_def setSocketRule_def updPlayer_def updMatch_def

subsection \<open>Reading a server after a write\<close>

lemma updMatch_fields [simp]:
  "players (updMatch s mr f) = players s"
  "sockets (updMatch s mr f) = sockets s"
  "clients (updMatch s mr f) = clients s"
  "length (matches (updMatch s mr f)) = length (matches s)"
  by (simp_all add: updMatch_def)

lemma updMatch_nth:
  "matches (updMatch s mr f) ! i =
     (if i = mr \<and> mr < length (matches s) then f (matches s ! mr) else matches s ! i)"
  by (auto simp: updMatch_def nth_list_update list_update_beyond)

lemma updPlayer_fields [simp]:
  "matches (updPlayer s pr f) = matches s"
  "sockets (updPlayer s pr f) = sockets s"
  "clients (updPlayer s pr f) = clients s"
  "length (players (updPlayer s pr f)) = length (players s)"
  by (simp_all add: updPlayer_def)

lemma updPlayer_nth:
  "players (updPlayer s pr f) ! i =
     (if i = pr \<and> pr < length (players s) then f (players s ! pr) else players s ! i)"
  by (auto simp: updPlayer_def nth_list_update list_update_beyond)

lemma setSocket_fields [simp]:
  "matches (setSocketMatch s k m) = matches s"
  "players (setSocketMatch s k m) = players s"
  "clients (setSocketMatch s k m) = clients s"
  "matches (setSocketPlayer s k p) = matches s"
  "players (setSocketPlayer s k p) = players s"
  "clients (setSocketPlayer s k p) = clients s"
  "matches (setSocketRule s k r) = matches s"
  "players (setSocketRule s k r) = players s"
  "clients (setSocketRule s k r) = clients s"
  by (simp_all add: setSocketMatch_def setSocketPlayer_def setSocketRule_def)

lemma setSocket_sockets [simp]:
  "sockets (setSocketMatch s k m) = (sockets s)(k := (sockets s k)\<lparr>sk_match := Some m\<rparr>)"
  "sockets (setSocketPlayer s k p) = (sockets s)(k := (sockets s k)\<lparr>sk_player := Some p\<rparr>)"
  "sockets (setSocketRule s k r) = (sockets s)(k := (sockets s k)\<lparr>sk_rule := Some r\<rparr>)"
  by (simp_all add: setSocketMatch_def setSocketPlayer_def setSocketRule_def)


subsection \<open>Evaluating the strings of the worked instance\<close>



lemma slug_alice: "iccjSlugify ''alice'' = ''alice''"
  by code_simp

lemma slug_ALICE: "iccjSlugify ''ALICE'' = ''alice''"
  by code_simp

lemma slug_Bob: "iccjSlugify ''Bob'' = ''bob''"
  by code_simp

subsection \<open>The shape of a slug\<close>






























subsection \<open>Move sequencing\<close>

lemma handleMovePiece_stale:
  assumes "getSocketMatch s k = Some mr"
    and "m_currentGame (matches s ! mr) = Some game"
    and "moveSequence p = Some n"
    and "n < g_moveSequence game"
  shows "handleMovePiece E s k (Some p) reply =
           (Return False,
            reply\<lparr>errorMessage :=
                    Some (if piece p = None then ''No piece selected!''
                          else ''This move has already been played!'')\<rparr>,
            s, [])"
  using assms by (simp add: handleMovePiece_def refuse_def split: option.splits)

lemma handleMovePiece_refused_frame:
  "handleMovePiece E s k ps reply = (Return False, reply', s', out) \<Longrightarrow> s' = s \<and> out = []"
  by (auto simp: handleMovePiece_def refuse_def Let_def split: option.splits if_splits)

lemma handleMovePiece_above:
  assumes "getSocketMatch s k = Some mr"
    and "m_currentGame (matches s ! mr) = Some game"
    and "n > g_moveSequence game"
  shows "handleMovePiece E s k (Some (p\<lparr>moveSequence := Some n\<rparr>)) reply =
         handleMovePiece E s k (Some (p\<lparr>moveSequence := Some (g_moveSequence game)\<rparr>)) reply"
  using assms by (simp add: handleMovePiece_def Let_def cong: if_cong option.case_cong)

lemma newReply_moveSequence:
  "newReply (Some (p\<lparr>moveSequence := x\<rparr>)) = newReply (Some p)"
  by (simp add: newReply_def)

lemma handleRequest_move:
  "handleRequest E s k MOVE_PIECE ps d =
     (case handleMovePiece E s k ps (newReply ps) of
        (Throw, reply, s1, out) \<Rightarrow> (s1, out)
      | (Return b, reply, s1, out) \<Rightarrow>
          (s1,
           out @
           [\<lparr>to_socket = k, em_message = MOVE_PIECE,
             em_params = Reply ((case getSocketMatch s1 k of
                                   None \<Rightarrow> reply\<lparr>result := b\<rparr>
                                 | Some m \<Rightarrow> reply\<lparr>result := b, r_match := Some m\<rparr>)
                                \<lparr>sendAfter := None\<rparr>)\<rparr>] @
           (case sendAfter reply of None \<Rightarrow> [] | Some a \<Rightarrow> runDeferred s1 a)))"
  by (simp add: handleRequest_def dispatch_def sendMessage_def Let_def
      split: prod.splits completion.splits option.splits)

lemma handleMovePiece_branches:
  assumes "getSocketMatch s k = Some mr"
    and "m_currentGame (matches s ! mr) = Some game"
    and "getSocketRule s k = Some rule"
    and "moveSequence p = Some n"
    and "n \<ge> g_moveSequence game"
  shows "handleMovePiece E s k (Some p) reply =
     (case piece p of
        None \<Rightarrow> (Return False, reply\<lparr>errorMessage := Some ''No piece selected!''\<rparr>, s, [])
      | Some pc \<Rightarrow>
          if \<not> validateMove rule (players s) game (getSocketPlayer s k) pc (steps p)
          then (Return False, reply\<lparr>errorMessage := Some ''Requested move is not valid!''\<rparr>, s, [])
          else if getMoveActions rule (boardState game) pc (steps p) = []
          then (Return False, reply\<lparr>errorMessage := Some ''Requested move is not allowed!''\<rparr>,
                s, [])
          else
            (case applyMoveActions rule (boardState game)
                    (getMoveActions rule (boardState game) pc (steps p)) of
               None \<Rightarrow>
                 (if debug E then Throw else Return False,
                  reply\<lparr>r_piece := Some pc, r_type := ptype p, r_steps := steps p,
                        r_moveActionList := Some []\<rparr>, s, [])
             | Some st \<Rightarrow>
                 (Return True,
                  reply\<lparr>r_piece := Some pc, r_type := ptype p, r_steps := steps p,
                        r_moveActionList :=
                          Some (getMoveActions rule (boardState game) pc (steps p))\<rparr>,
                  updMatch s mr
                    (\<lambda>m. m\<lparr>m_currentGame :=
                              Some (game\<lparr>g_cells := (g_cells game)[g_state game := st],
                                         g_turnDice :=
                                           markAsPlayed rule (g_turnDice game) (steps p),
                                         g_moveSequence := g_moveSequence game + 1\<rparr>)\<rparr>),
                  sendMatchMessage
                    (updMatch s mr
                      (\<lambda>m. m\<lparr>m_currentGame :=
                              Some (game\<lparr>g_cells := (g_cells game)[g_state game := st],
                                         g_turnDice :=
                                           markAsPlayed rule (g_turnDice game) (steps p),
                                         g_moveSequence := g_moveSequence game + 1\<rparr>)\<rparr>))
                    mr EVENT_PIECE_MOVE
                    (Event (PieceMove mr pc (ptype p) (steps p)
                              (getMoveActions rule (boardState game) pc (steps p)))))))"
  using assms
  by (simp add: handleMovePiece_def refuse_def Let_def split: option.splits)

text \<open>
  C1.  A MOVE_PIECE request whose \<open>moveSequence\<close> is strictly below the counter of the
  current game is refused: the handler returns \<open>false\<close> with an error text and the
  server it was given, emitting nothing; the request as a whole leaves the server
  unchanged and sends exactly the reply, with \<open>result\<close> false and that error text, to
  the requesting connection.  The server value holds every board State, the dice, the
  counters, the matches and the players.
\<close>

theorem stale_move_rejected:
  assumes "getSocketMatch s k = Some mr"
    and "m_currentGame (matches s ! mr) = Some game"
    and "moveSequence p = Some n"
    and "n < g_moveSequence game"
  shows "\<exists>text r. handleMovePiece E s k (Some p) reply =
                  (Return False, reply\<lparr>errorMessage := Some text\<rparr>, s, []) \<and>
               handleRequest E s k MOVE_PIECE (Some p) d =
                  (s, [\<lparr>to_socket = k, em_message = MOVE_PIECE, em_params = Reply r\<rparr>]) \<and>
               result r = False \<and> errorMessage r = Some text"
  using handleMovePiece_stale[OF assms]
  by (simp add: handleRequest_def dispatch_def sendMessage_def newReply_def assms(1)
      split: option.splits)

theorem stale_move_rejected_witness:
  "getSocketMatch exServer ''sa'' = Some 0 \<and>
   m_currentGame (matches exServer ! 0) = Some exGame \<and>
   moveSequence (exParams\<lparr>piece := Some (Piece WHITE 1), steps := Some 3,
                          moveSequence := Some 1\<rparr>) = Some 1 \<and>
   1 < g_moveSequence exGame \<and>
   (\<exists>text r. handleMovePiece exEnv exServer ''sa''
                (Some (exParams\<lparr>piece := Some (Piece WHITE 1), steps := Some 3,
                                 moveSequence := Some 1\<rparr>))
                (newReply None) =
                  (Return False, (newReply None)\<lparr>errorMessage := Some text\<rparr>, exServer, []) \<and>
               handleRequest exEnv exServer ''sa'' MOVE_PIECE
                 (Some (exParams\<lparr>piece := Some (Piece WHITE 1), steps := Some 3,
                                  moveSequence := Some 1\<rparr>)) exDrawn =
                  (exServer,
                   [\<lparr>to_socket = ''sa'', em_message = MOVE_PIECE, em_params = Reply r\<rparr>]) \<and>
               result r = False \<and> errorMessage r = Some text)"
proof -
  have h1: "getSocketMatch exServer ''sa'' = Some 0"
    by (simp add: getSocketMatch_def exServer_def exSockets_def)
  have h2: "m_currentGame (matches exServer ! 0) = Some exGame"
    by (simp add: exServer_def exMatch_def)
  have h3: "moveSequence (exParams\<lparr>piece := Some (Piece WHITE 1), steps := Some 3,
                                  moveSequence := Some 1\<rparr>) = Some 1"
    by simp
  have h4: "1 < g_moveSequence exGame"
    by (simp add: exGame_def)
  from stale_move_rejected[OF h1 h2 h3 h4, of exEnv "newReply None" exDrawn] h1 h2 h3 h4
  show ?thesis by blast
qed

text \<open>
  C4, as claimed, fails: with the dice rolled and the counter at 2, Alice's move carrying
  the future sequence value 7 is accepted; the board and the counter change.
\<close>

theorem future_move_counterexample:
  "case handleMovePiece exEnv exRolled ''sa''
          (Some (exParams\<lparr>piece := Some (Piece WHITE 1), steps := Some 3,
                           moveSequence := Some 7\<rparr>))
          (newReply None) of
     (c, r, s', out) \<Rightarrow>
        map (map_option g_moveSequence \<circ> m_currentGame) (matches exRolled) = [Some 2] \<and>
        map (map_option boardState \<circ> m_currentGame) (matches exRolled) = [Some 2] \<and>
        c = Return True \<and> errorMessage r = None \<and>
        map (map_option g_moveSequence \<circ> m_currentGame) (matches s') = [Some 3] \<and>
        map (map_option boardState \<circ> m_currentGame) (matches s') = [Some 3]"
  by (simp add: handleMovePiece_def ex_defs sock_defs boardState_def newReply_def Let_def)

text \<open>
  C4, amended.  The handler guards against a sequence value below the counter only.  A
  MOVE_PIECE request whose \<open>moveSequence\<close> is strictly above the counter is handled, by
  the handler and by the request as a whole, exactly as the same request carrying the
  current counter value.  It is refused with an error text, the server unchanged and
  exactly the reply sent, with \<open>result\<close> false and that text: \<open>No piece selected!\<close> when
  it names no piece, \<open>Requested move is not valid!\<close> when the rule does not validate the
  move, \<open>Requested move is not allowed!\<close> when the rule finds no move actions.  When the rule validates the move and its actions apply, the request is
  accepted: the handler returns \<open>true\<close> with no error text, the board State is written
  and the counter goes up by one.  When the actions fail to apply, the server is unchanged
  and no error text is set: the handler returns \<open>false\<close> and the reply carries \<open>result\<close>
  false without an error text, or, with DEBUG set, the handler throws and no reply is
  sent.  The instance below runs a refused request, an accepted one and one whose actions
  fail to apply.
\<close>

theorem future_move_as_current:
  assumes mr: "getSocketMatch s k = Some mr"
    and inr: "mr < length (matches s)"
    and game: "m_currentGame (matches s ! mr) = Some game"
    and rule: "getSocketRule s k = Some rule"
    and n: "n > g_moveSequence game"
  shows "handleMovePiece E s k (Some (p\<lparr>moveSequence := Some n\<rparr>)) reply =
         handleMovePiece E s k (Some (p\<lparr>moveSequence := Some (g_moveSequence game)\<rparr>)) reply \<and>
         handleRequest E s k MOVE_PIECE (Some (p\<lparr>moveSequence := Some n\<rparr>)) d =
         handleRequest E s k MOVE_PIECE
           (Some (p\<lparr>moveSequence := Some (g_moveSequence game)\<rparr>)) d \<and>
         (piece p = None \<or>
          (\<exists>pc. piece p = Some pc \<and>
                (\<not> validateMove rule (players s) game (getSocketPlayer s k) pc (steps p) \<or>
                 getMoveActions rule (boardState game) pc (steps p) = [])) \<longrightarrow>
          (\<exists>text r.
             text = (case piece p of
                       None \<Rightarrow> ''No piece selected!''
                     | Some pc \<Rightarrow>
                         if validateMove rule (players s) game (getSocketPlayer s k) pc (steps p)
                         then ''Requested move is not allowed!''
                         else ''Requested move is not valid!'') \<and>
             handleMovePiece E s k (Some (p\<lparr>moveSequence := Some n\<rparr>)) reply =
               (Return False, reply\<lparr>errorMessage := Some text\<rparr>, s, []) \<and>
             handleRequest E s k MOVE_PIECE (Some (p\<lparr>moveSequence := Some n\<rparr>)) d =
               (s, [\<lparr>to_socket = k, em_message = MOVE_PIECE, em_params = Reply r\<rparr>]) \<and>
             result r = False \<and> errorMessage r = Some text)) \<and>
         (\<forall>pc st.
            piece p = Some pc \<and>
            validateMove rule (players s) game (getSocketPlayer s k) pc (steps p) \<and>
            getMoveActions rule (boardState game) pc (steps p) \<noteq> [] \<and>
            applyMoveActions rule (boardState game)
              (getMoveActions rule (boardState game) pc (steps p)) = Some st \<longrightarrow>
            (\<exists>reply' s' out.
               handleMovePiece E s k (Some (p\<lparr>moveSequence := Some n\<rparr>)) reply =
                 (Return True, reply', s', out) \<and>
               errorMessage reply' = errorMessage reply \<and>
               m_currentGame (matches s' ! mr) =
                 Some (game\<lparr>g_cells := (g_cells game)[g_state game := st],
                            g_turnDice := markAsPlayed rule (g_turnDice game) (steps p),
                            g_moveSequence := g_moveSequence game + 1\<rparr>) \<and>
               fst (handleRequest E s k MOVE_PIECE
                      (Some (p\<lparr>moveSequence := Some n\<rparr>)) d) = s')) \<and>
         (\<forall>pc.
            piece p = Some pc \<and>
            validateMove rule (players s) game (getSocketPlayer s k) pc (steps p) \<and>
            getMoveActions rule (boardState game) pc (steps p) \<noteq> [] \<and>
            applyMoveActions rule (boardState game)
              (getMoveActions rule (boardState game) pc (steps p)) = None \<longrightarrow>
            (\<exists>reply' r.
               handleMovePiece E s k (Some (p\<lparr>moveSequence := Some n\<rparr>)) reply =
                 (if debug E then Throw else Return False, reply', s, []) \<and>
               errorMessage reply' = errorMessage reply \<and>
               handleRequest E s k MOVE_PIECE (Some (p\<lparr>moveSequence := Some n\<rparr>)) d =
                 (s, if debug E then []
                     else [\<lparr>to_socket = k, em_message = MOVE_PIECE, em_params = Reply r\<rparr>]) \<and>
               result r = False \<and> errorMessage r = None))"
proof -
  let ?p = "p\<lparr>moveSequence := Some n\<rparr>"
  have sq: "moveSequence ?p = Some n" "g_moveSequence game \<le> n" using n by simp_all
  note br = handleMovePiece_branches[OF mr game rule sq]
  have c1: "handleMovePiece E s k (Some ?p) reply =
         handleMovePiece E s k (Some (p\<lparr>moveSequence := Some (g_moveSequence game)\<rparr>)) reply"
    for reply
    by (rule handleMovePiece_above[OF mr game n])
  have c2: "handleRequest E s k MOVE_PIECE (Some ?p) d =
         handleRequest E s k MOVE_PIECE
           (Some (p\<lparr>moveSequence := Some (g_moveSequence game)\<rparr>)) d"
    by (simp only: handleRequest_move newReply_moveSequence c1)
  have c3: "\<exists>text r.
             text = (case piece p of
                       None \<Rightarrow> ''No piece selected!''
                     | Some pc \<Rightarrow>
                         if validateMove rule (players s) game (getSocketPlayer s k) pc (steps p)
                         then ''Requested move is not allowed!''
                         else ''Requested move is not valid!'') \<and>
             handleMovePiece E s k (Some ?p) reply =
               (Return False, reply\<lparr>errorMessage := Some text\<rparr>, s, []) \<and>
             handleRequest E s k MOVE_PIECE (Some ?p) d =
               (s, [\<lparr>to_socket = k, em_message = MOVE_PIECE, em_params = Reply r\<rparr>]) \<and>
             result r = False \<and> errorMessage r = Some text"
    if "piece p = None \<or>
          (\<exists>pc. piece p = Some pc \<and>
                (\<not> validateMove rule (players s) game (getSocketPlayer s k) pc (steps p) \<or>
                 getMoveActions rule (boardState game) pc (steps p) = []))"
  proof -
    have "\<exists>tx. tx = (case piece p of
                       None \<Rightarrow> ''No piece selected!''
                     | Some pc \<Rightarrow>
                         if validateMove rule (players s) game (getSocketPlayer s k) pc (steps p)
                         then ''Requested move is not allowed!''
                         else ''Requested move is not valid!'') \<and>
               (\<forall>reply. handleMovePiece E s k (Some ?p) reply =
                  (Return False, reply\<lparr>errorMessage := Some tx\<rparr>, s, []))"
    proof (cases "piece p")
      case None
      show ?thesis
        by (rule exI[of _ "''No piece selected!''"]) (simp add: br None)
    next
      case (Some pc)
      show ?thesis
      proof (cases "validateMove rule (players s) game (getSocketPlayer s k) pc (steps p)")
        case False
        show ?thesis
          by (rule exI[of _ "''Requested move is not valid!''"]) (simp add: br Some False)
      next
        case True
        with that Some have "getMoveActions rule (boardState game) pc (steps p) = []" by simp
        with True show ?thesis
          by (intro exI[of _ "''Requested move is not allowed!''"]) (simp add: br Some)
      qed
    qed
    then obtain tx where
      t: "tx = (case piece p of
                       None \<Rightarrow> ''No piece selected!''
                     | Some pc \<Rightarrow>
                         if validateMove rule (players s) game (getSocketPlayer s k) pc (steps p)
                         then ''Requested move is not allowed!''
                         else ''Requested move is not valid!'')"
      and h: "\<And>reply. handleMovePiece E s k (Some ?p) reply =
               (Return False, reply\<lparr>errorMessage := Some tx\<rparr>, s, [])"
      by (elim exE conjE) simp
    let ?r = "(newReply (Some ?p))\<lparr>errorMessage := Some tx, result := False,
                r_match := Some mr, sendAfter := None\<rparr>"
    have "handleRequest E s k MOVE_PIECE (Some ?p) d =
               (s, [\<lparr>to_socket = k, em_message = MOVE_PIECE, em_params = Reply ?r\<rparr>])"
      by (simp add: handleRequest_move h mr newReply_def)
    with t h show ?thesis
      by (intro exI[of _ tx] exI[of _ ?r]) simp
  qed
  have c4: "\<exists>reply' s' out.
               handleMovePiece E s k (Some ?p) reply = (Return True, reply', s', out) \<and>
               errorMessage reply' = errorMessage reply \<and>
               m_currentGame (matches s' ! mr) =
                 Some (game\<lparr>g_cells := (g_cells game)[g_state game := st],
                            g_turnDice := markAsPlayed rule (g_turnDice game) (steps p),
                            g_moveSequence := g_moveSequence game + 1\<rparr>) \<and>
               fst (handleRequest E s k MOVE_PIECE (Some ?p) d) = s'"
    if pc: "piece p = Some pc"
      and va: "validateMove rule (players s) game (getSocketPlayer s k) pc (steps p)"
      and ac: "getMoveActions rule (boardState game) pc (steps p) \<noteq> []"
      and ap: "applyMoveActions rule (boardState game)
                 (getMoveActions rule (boardState game) pc (steps p)) = Some st"
    for pc st
  proof -
    let ?s' = "updMatch s mr
                    (\<lambda>m. m\<lparr>m_currentGame :=
                              Some (game\<lparr>g_cells := (g_cells game)[g_state game := st],
                                         g_turnDice :=
                                           markAsPlayed rule (g_turnDice game) (steps p),
                                         g_moveSequence := g_moveSequence game + 1\<rparr>)\<rparr>)"
    have h: "\<And>reply. \<exists>reply' out. handleMovePiece E s k (Some ?p) reply =
               (Return True, reply', ?s', out) \<and> errorMessage reply' = errorMessage reply"
      using pc va ac ap by (simp add: br)
    from h[of reply] obtain reply' out where
      h1: "handleMovePiece E s k (Some ?p) reply = (Return True, reply', ?s', out)"
          "errorMessage reply' = errorMessage reply" by blast
    from h[of "newReply (Some ?p)"] obtain reply2 out2 where
      h2: "handleMovePiece E s k (Some ?p) (newReply (Some ?p)) = (Return True, reply2, ?s', out2)"
      by blast
    have f: "fst (handleRequest E s k MOVE_PIECE (Some ?p) d) = ?s'"
      by (simp add: handleRequest_move h2)
    have g: "m_currentGame (matches ?s' ! mr) =
                      Some (game\<lparr>g_cells := (g_cells game)[g_state game := st],
                                 g_turnDice := markAsPlayed rule (g_turnDice game) (steps p),
                                 g_moveSequence := g_moveSequence game + 1\<rparr>)"
      using inr by (simp add: updMatch_nth)
    show ?thesis
      by (intro exI[of _ reply'] exI[of _ ?s'] exI[of _ out] conjI h1 f g)
  qed
  have c5: "\<exists>reply' r.
               handleMovePiece E s k (Some ?p) reply =
                 (if debug E then Throw else Return False, reply', s, []) \<and>
               errorMessage reply' = errorMessage reply \<and>
               handleRequest E s k MOVE_PIECE (Some ?p) d =
                 (s, if debug E then []
                     else [\<lparr>to_socket = k, em_message = MOVE_PIECE, em_params = Reply r\<rparr>]) \<and>
               result r = False \<and> errorMessage r = None"
    if pc: "piece p = Some pc"
      and va: "validateMove rule (players s) game (getSocketPlayer s k) pc (steps p)"
      and ac: "getMoveActions rule (boardState game) pc (steps p) \<noteq> []"
      and ap: "applyMoveActions rule (boardState game)
                 (getMoveActions rule (boardState game) pc (steps p)) = None"
    for pc
  proof -
    have h: "\<And>reply. handleMovePiece E s k (Some ?p) reply =
               (if debug E then Throw else Return False,
                reply\<lparr>r_piece := Some pc, r_type := ptype p, r_steps := steps p,
                        r_moveActionList := Some []\<rparr>, s, [])"
      using pc va ac ap by (simp add: br)
    let ?r = "(newReply (Some ?p))\<lparr>r_piece := Some pc, r_type := ptype p, r_steps := steps p,
                r_moveActionList := Some [], result := False,
                r_match := Some mr, sendAfter := None\<rparr>"
    have "handleRequest E s k MOVE_PIECE (Some ?p) d =
               (s, if debug E then []
                   else [\<lparr>to_socket = k, em_message = MOVE_PIECE, em_params = Reply ?r\<rparr>])"
      by (simp add: handleRequest_move h mr newReply_def)
    moreover have "result ?r = False \<and> errorMessage ?r = None"
      by (simp add: newReply_def)
    ultimately show ?thesis
      unfolding h
      by (intro exI[of _ "reply\<lparr>r_piece := Some pc, r_type := ptype p, r_steps := steps p,
                        r_moveActionList := Some []\<rparr>"] exI[of _ ?r]) simp
  qed
  show ?thesis
    apply (intro conjI impI allI)
        apply (rule c1)
       apply (rule c2)
      apply (erule c3)
     apply (elim conjE)
     apply (erule (3) c4)
    apply (elim conjE)
    apply (erule (3) c5)
    done
qed

theorem future_move_as_current_witness:
  "getSocketMatch exRolled ''sa'' = Some 0 \<and> 0 < length (matches exRolled) \<and>
   m_currentGame (matches exRolled ! 0) = Some exRolledGame \<and>
   getSocketRule exRolled ''sa'' = Some exRule \<and> 7 > g_moveSequence exRolledGame \<and>
   (\<exists>text r.
      text = ''Requested move is not allowed!'' \<and>
      handleMovePiece exEnv exRolled ''sa''
        (Some (exParams\<lparr>piece := Some (Piece WHITE 1), moveSequence := Some 7\<rparr>))
        (newReply None) =
        (Return False, (newReply None)\<lparr>errorMessage := Some text\<rparr>, exRolled, []) \<and>
      handleRequest exEnv exRolled ''sa'' MOVE_PIECE
        (Some (exParams\<lparr>piece := Some (Piece WHITE 1), moveSequence := Some 7\<rparr>)) exDrawn =
        (exRolled, [\<lparr>to_socket = ''sa'', em_message = MOVE_PIECE, em_params = Reply r\<rparr>]) \<and>
      result r = False \<and> errorMessage r = Some text) \<and>
   (\<exists>reply' s' out.
      handleMovePiece exEnv exRolled ''sa''
        (Some (exParams\<lparr>piece := Some (Piece WHITE 1), steps := Some 3,
                         moveSequence := Some 7\<rparr>))
        (newReply None) = (Return True, reply', s', out) \<and>
      errorMessage reply' = None \<and>
      m_currentGame (matches s' ! 0) = Some exMovedGame \<and>
      fst (handleRequest exEnv exRolled ''sa'' MOVE_PIECE
             (Some (exParams\<lparr>piece := Some (Piece WHITE 1), steps := Some 3,
                              moveSequence := Some 7\<rparr>)) exDrawn) = s') \<and>
   getSocketMatch exStuck ''sa'' = Some 0 \<and> 0 < length (matches exStuck) \<and>
   m_currentGame (matches exStuck ! 0) = Some exRolledGame \<and>
   getSocketRule exStuck ''sa'' = Some exStuckRule \<and>
   (\<exists>reply' r.
      handleMovePiece exEnv exStuck ''sa''
        (Some (exParams\<lparr>piece := Some (Piece WHITE 1), steps := Some 3,
                         moveSequence := Some 7\<rparr>))
        (newReply None) = (Return False, reply', exStuck, []) \<and>
      errorMessage reply' = None \<and>
      handleRequest exEnv exStuck ''sa'' MOVE_PIECE
        (Some (exParams\<lparr>piece := Some (Piece WHITE 1), steps := Some 3,
                         moveSequence := Some 7\<rparr>)) exDrawn =
        (exStuck, [\<lparr>to_socket = ''sa'', em_message = MOVE_PIECE, em_params = Reply r\<rparr>]) \<and>
      result r = False \<and> errorMessage r = None)"
proof -
  have h1: "getSocketMatch exRolled ''sa'' = Some 0"
    by (simp add: getSocketMatch_def exRolled_def exServer_def exSockets_def)
  have h2: "0 < length (matches exRolled)"
    by (simp add: exRolled_def)
  have h3: "m_currentGame (matches exRolled ! 0) = Some exRolledGame"
    by (simp add: exRolled_def)
  have h4: "getSocketRule exRolled ''sa'' = Some exRule"
    by (simp add: getSocketRule_def exRolled_def exServer_def exSockets_def)
  have h5: "7 > g_moveSequence exRolledGame"
    by (simp add: exRolledGame_def exGame_def)
  have k1: "getSocketMatch exStuck ''sa'' = Some 0"
    by (simp add: getSocketMatch_def exStuck_def exSockets_def)
  have k2: "0 < length (matches exStuck)"
    by (simp add: exStuck_def exRolled_def)
  have k3: "m_currentGame (matches exStuck ! 0) = Some exRolledGame"
    by (simp add: exStuck_def exRolled_def)
  have k4: "getSocketRule exStuck ''sa'' = Some exStuckRule"
    by (simp add: getSocketRule_def exStuck_def)
  have pl: "getSocketPlayer exRolled ''sa'' = Some 0" "getSocketPlayer exStuck ''sa'' = Some 0"
    by (simp_all add: getSocketPlayer_def exStuck_def exRolled_def exServer_def exSockets_def)
  have va: "validateMove exRule ps exRolledGame (Some 0) (Piece WHITE 1) stp"
    "validateMove exStuckRule ps exRolledGame (Some 0) (Piece WHITE 1) stp"
    for stp ps
    by (simp_all add: exStuckRule_def exRule_def exRolledGame_def exGame_def)
  have bs: "boardState exRolledGame = 2"
    by (simp add: boardState_def exRolledGame_def exGame_def)
  have ga: "getMoveActions exRule 2 (Piece WHITE 1) None = []"
    "getMoveActions exRule 2 (Piece WHITE 1) (Some 3) = [MoveAction (Piece WHITE 1) 2 5 False]"
    "getMoveActions exStuckRule 2 (Piece WHITE 1) (Some 3) = [MoveAction (Piece WHITE 1) 2 5 False]"
    by (simp_all add: exStuckRule_def exRule_def)
  have ap: "applyMoveActions exRule 2 acts = Some (2 + length acts)"
    "applyMoveActions exStuckRule 2 acts = None" for acts
    by (simp_all add: exStuckRule_def exRule_def)
  have er: "errorMessage (newReply None) = None" "\<not> debug exEnv"
    by (simp_all add: newReply_def exEnv_def)
  have mv: "exRolledGame\<lparr>g_cells := (g_cells exRolledGame)[g_state exRolledGame := 3],
               g_turnDice := markAsPlayed exRule (g_turnDice exRolledGame) (Some 3),
               g_moveSequence := g_moveSequence exRolledGame + 1\<rparr> = exMovedGame"
    by (simp add: exMovedGame_def exRolledGame_def exGame_def exRule_def)
  note A = future_move_as_current[OF h1 h2 h3 h4 h5, of exEnv
             "exParams\<lparr>piece := Some (Piece WHITE 1)\<rparr>" "newReply None" exDrawn,
             THEN conjunct2, THEN conjunct2, THEN conjunct1, THEN mp]
  have "\<exists>text r.
      text = (case piece (exParams\<lparr>piece := Some (Piece WHITE 1)\<rparr>) of
                None \<Rightarrow> ''No piece selected!''
              | Some pc \<Rightarrow>
                  if validateMove exRule (players exRolled) exRolledGame
                       (getSocketPlayer exRolled ''sa'') pc
                       (steps (exParams\<lparr>piece := Some (Piece WHITE 1)\<rparr>))
                  then ''Requested move is not allowed!''
                  else ''Requested move is not valid!'') \<and>
      handleMovePiece exEnv exRolled ''sa''
        (Some (exParams\<lparr>piece := Some (Piece WHITE 1), moveSequence := Some 7\<rparr>))
        (newReply None) =
        (Return False, (newReply None)\<lparr>errorMessage := Some text\<rparr>, exRolled, []) \<and>
      handleRequest exEnv exRolled ''sa'' MOVE_PIECE
        (Some (exParams\<lparr>piece := Some (Piece WHITE 1), moveSequence := Some 7\<rparr>)) exDrawn =
        (exRolled, [\<lparr>to_socket = ''sa'', em_message = MOVE_PIECE, em_params = Reply r\<rparr>]) \<and>
      result r = False \<and> errorMessage r = Some text"
    by (rule A) (simp add: exParams_def bs ga)
  then have a: "\<exists>text r.
      text = ''Requested move is not allowed!'' \<and>
      handleMovePiece exEnv exRolled ''sa''
        (Some (exParams\<lparr>piece := Some (Piece WHITE 1), moveSequence := Some 7\<rparr>))
        (newReply None) =
        (Return False, (newReply None)\<lparr>errorMessage := Some text\<rparr>, exRolled, []) \<and>
      handleRequest exEnv exRolled ''sa'' MOVE_PIECE
        (Some (exParams\<lparr>piece := Some (Piece WHITE 1), moveSequence := Some 7\<rparr>)) exDrawn =
        (exRolled, [\<lparr>to_socket = ''sa'', em_message = MOVE_PIECE, em_params = Reply r\<rparr>]) \<and>
      result r = False \<and> errorMessage r = Some text"
    by (simp add: pl va)
  note B = future_move_as_current[OF h1 h2 h3 h4 h5, of exEnv
             "exParams\<lparr>piece := Some (Piece WHITE 1), steps := Some 3\<rparr>" "newReply None" exDrawn,
             THEN conjunct2, THEN conjunct2, THEN conjunct2, THEN conjunct1,
             THEN spec, THEN spec, THEN mp, of "Piece WHITE 1" 3]
  have "\<exists>reply' s' out.
      handleMovePiece exEnv exRolled ''sa''
        (Some (exParams\<lparr>piece := Some (Piece WHITE 1), steps := Some 3,
                         moveSequence := Some 7\<rparr>))
        (newReply None) = (Return True, reply', s', out) \<and>
      errorMessage reply' = errorMessage (newReply None) \<and>
      m_currentGame (matches s' ! 0) =
        Some (exRolledGame\<lparr>g_cells := (g_cells exRolledGame)[g_state exRolledGame := 3],
               g_turnDice := markAsPlayed exRule (g_turnDice exRolledGame)
                               (steps (exParams\<lparr>piece := Some (Piece WHITE 1),
                                                steps := Some 3\<rparr>)),
               g_moveSequence := g_moveSequence exRolledGame + 1\<rparr>) \<and>
      fst (handleRequest exEnv exRolled ''sa'' MOVE_PIECE
             (Some (exParams\<lparr>piece := Some (Piece WHITE 1), steps := Some 3,
                              moveSequence := Some 7\<rparr>)) exDrawn) = s'"
    by (rule B) (simp add: exParams_def bs ga ap pl va)
  then have b: "\<exists>reply' s' out.
      handleMovePiece exEnv exRolled ''sa''
        (Some (exParams\<lparr>piece := Some (Piece WHITE 1), steps := Some 3,
                         moveSequence := Some 7\<rparr>))
        (newReply None) = (Return True, reply', s', out) \<and>
      errorMessage reply' = None \<and>
      m_currentGame (matches s' ! 0) = Some exMovedGame \<and>
      fst (handleRequest exEnv exRolled ''sa'' MOVE_PIECE
             (Some (exParams\<lparr>piece := Some (Piece WHITE 1), steps := Some 3,
                              moveSequence := Some 7\<rparr>)) exDrawn) = s'"
    by (simp add: er mv)
  note C = future_move_as_current[OF k1 k2 k3 k4 h5, of exEnv
             "exParams\<lparr>piece := Some (Piece WHITE 1), steps := Some 3\<rparr>" "newReply None" exDrawn,
             THEN conjunct2, THEN conjunct2, THEN conjunct2, THEN conjunct2,
             THEN spec, THEN mp, of "Piece WHITE 1"]
  have "\<exists>reply' r.
      handleMovePiece exEnv exStuck ''sa''
        (Some (exParams\<lparr>piece := Some (Piece WHITE 1), steps := Some 3,
                         moveSequence := Some 7\<rparr>))
        (newReply None) = (if debug exEnv then Throw else Return False, reply', exStuck, []) \<and>
      errorMessage reply' = errorMessage (newReply None) \<and>
      handleRequest exEnv exStuck ''sa'' MOVE_PIECE
        (Some (exParams\<lparr>piece := Some (Piece WHITE 1), steps := Some 3,
                         moveSequence := Some 7\<rparr>)) exDrawn =
        (exStuck, if debug exEnv then []
                  else [\<lparr>to_socket = ''sa'', em_message = MOVE_PIECE, em_params = Reply r\<rparr>]) \<and>
      result r = False \<and> errorMessage r = None"
    by (rule C) (simp add: exParams_def bs ga ap pl va)
  then have c: "\<exists>reply' r.
      handleMovePiece exEnv exStuck ''sa''
        (Some (exParams\<lparr>piece := Some (Piece WHITE 1), steps := Some 3,
                         moveSequence := Some 7\<rparr>))
        (newReply None) = (Return False, reply', exStuck, []) \<and>
      errorMessage reply' = None \<and>
      handleRequest exEnv exStuck ''sa'' MOVE_PIECE
        (Some (exParams\<lparr>piece := Some (Piece WHITE 1), steps := Some 3,
                         moveSequence := Some 7\<rparr>)) exDrawn =
        (exStuck, [\<lparr>to_socket = ''sa'', em_message = MOVE_PIECE, em_params = Reply r\<rparr>]) \<and>
      result r = False \<and> errorMessage r = None"
    by (simp add: er)
  show ?thesis
    by (intro conjI h1 h2 h3 h4 h5 a b k1 k2 k3 k4 c)
qed


subsection \<open>Resigning a match\<close>

text \<open>
  C10.  \<open>handleResignMatch\<close> returns the server it was given (so the score mapping and
  the \<open>isOver\<close> flag of every match are as before) and emits nothing, and so does the
  whole RESIGN_MATCH request; on a connection bound to a match it returns \<open>true\<close> and
  changes the reply only by scheduling one EVENT_MATCH_OVER to the players of the match,
  with \<open>resigned\<close> true and, as winner, the other player: the guest when the requester
  is the host, the host otherwise.
\<close>

theorem resign_match_frame:
  assumes "handleResignMatch s k ps reply = (c, reply', s', out)"
  shows "s' = s \<and> out = [] \<and>
         map m_score (matches s') = map m_score (matches s) \<and>
         map m_isOver (matches s') = map m_isOver (matches s) \<and>
         fst (handleRequest E s k RESIGN_MATCH ps d) = s \<and>
         (\<forall>mr. getSocketMatch s k = Some mr \<longrightarrow>
            c = Return True \<and>
            reply' = reply\<lparr>sendAfter :=
                        Some (ToMatch mr
                          [(EVENT_MATCH_OVER,
                            MatchResult mr
                              (if Match_isHost (players s) (matches s ! mr) (getSocketPlayer s k)
                               then m_guest (matches s ! mr) else m_host (matches s ! mr))
                              True)])\<rparr>)"
  using assms
  by (auto simp: handleResignMatch_def otherPlayerOf_def handleRequest_def dispatch_def Let_def
      split: option.splits)

theorem resign_match_frame_witness:
  "handleResignMatch exServer ''sa'' (Some exParams) (newReply (Some exParams)) =
     (Return True,
      (newReply (Some exParams))\<lparr>sendAfter :=
         Some (ToMatch 0 [(EVENT_MATCH_OVER, MatchResult 0 (Some 1) True)])\<rparr>,
      exServer, []) \<and>
   getSocketMatch exServer ''sa'' = Some 0 \<and>
   map m_isOver (matches exServer) = [False] \<and>
   fst (handleRequest exEnv exServer ''sa'' RESIGN_MATCH (Some exParams) exDrawn) = exServer"
proof -
  have h: "handleResignMatch exServer ''sa'' (Some exParams) (newReply (Some exParams)) =
     (Return True,
      (newReply (Some exParams))\<lparr>sendAfter :=
         Some (ToMatch 0 [(EVENT_MATCH_OVER, MatchResult 0 (Some 1) True)])\<rparr>,
      exServer, [])"
    by (simp add: handleResignMatch_def otherPlayerOf_def Match_isHost_def getSocketMatch_def
        getSocketPlayer_def exServer_def exSockets_def exMatch_def exAlice_def exBob_def)
  have m: "getSocketMatch exServer ''sa'' = Some 0"
    by (simp add: getSocketMatch_def exServer_def exSockets_def)
  have o: "map m_isOver (matches exServer) = [False]"
    by (simp add: exServer_def exMatch_def)
  from resign_match_frame[OF h, of exEnv exDrawn] h m o show ?thesis by simp
qed

subsection \<open>The end of a game\<close>

text \<open>
  C3.  Let \<open>endGame\<close> be called on a socket with a match, a rule and a current game, for a
  winner whose colour has a numeric total \<open>v\<close>.  Then \<open>endGame\<close> returns \<open>true\<close> and emits
  nothing itself; the total of the winner's colour becomes \<open>v\<close> plus the game score and the
  total of every other colour is the one it was; on a match that was not over, \<open>isOver\<close>
  becomes true exactly when the new total reaches the match length (and a match that was
  over stays over); while \<open>isOver\<close> is false afterwards, the current game is a new
  started Game with the winner as \<open>turnPlayer\<close> and \<open>turnNumber\<close> 1, and EVENT_GAME_OVER
  and EVENT_GAME_RESTART are scheduled; once \<open>isOver\<close> is true, the current game is the
  one that was there, and only EVENT_MATCH_OVER is scheduled.  The match length, the other
  matches, the players and the sockets are untouched.  The instance below runs both
  branches: a match of length 2 that goes on, and a match of length 1 that ends.
\<close>

theorem endGame_scoring:
  assumes mr: "getSocketMatch s k = Some mr"
    and inr: "mr < length (matches s)"
    and rule: "getSocketRule s k = Some rule"
    and game: "m_currentGame (matches s ! mr) = Some game"
    and w: "winner = Some w"
    and v: "m_score (matches s ! mr) (p_currentPieceType (players s ! w)) = Some v"
  shows "\<exists>reply' s'.
         endGame s k winner resigned reply newGameID = (Return True, reply', s', []) \<and>
         m_score (matches s' ! mr) (p_currentPieceType (players s ! w)) =
           Some (v + getGameScore rule (boardState game) (players s) winner) \<and>
         (\<forall>c. c \<noteq> p_currentPieceType (players s ! w) \<longrightarrow>
              m_score (matches s' ! mr) c = m_score (matches s ! mr) c) \<and>
         (\<not> m_isOver (matches s ! mr) \<longrightarrow>
            m_isOver (matches s' ! mr) =
              (v + getGameScore rule (boardState game) (players s) winner
                 \<ge> m_length (matches s ! mr))) \<and>
         (m_isOver (matches s ! mr) \<longrightarrow> m_isOver (matches s' ! mr)) \<and>
         (\<not> m_isOver (matches s' ! mr) \<longrightarrow>
            m_currentGame (matches s' ! mr) =
              Some ((Game_createNew rule newGameID)
                      \<lparr>g_hasStarted := True, g_turnPlayer := winner, g_turnNumber := 1\<rparr>) \<and>
            sendAfter reply' =
              Some (ToMatch mr [(EVENT_GAME_OVER, MatchResult mr winner resigned),
                                (EVENT_GAME_RESTART, GameRestart mr resigned)])) \<and>
         (m_isOver (matches s' ! mr) \<longrightarrow>
            m_currentGame (matches s' ! mr) = m_currentGame (matches s ! mr) \<and>
            sendAfter reply' =
              Some (ToMatch mr [(EVENT_MATCH_OVER, MatchResult mr winner resigned)])) \<and>
         m_length (matches s' ! mr) = m_length (matches s ! mr) \<and>
         length (matches s') = length (matches s) \<and>
         (\<forall>i. i \<noteq> mr \<longrightarrow> matches s' ! i = matches s ! i) \<and>
         players s' = players s \<and> sockets s' = sockets s \<and> clients s' = clients s"
proof -
  define total where "total = v + getGameScore rule (boardState game) (players s) winner"
  define c where "c = p_currentPieceType (players s ! w)"
  define m1 where "m1 = (matches s ! mr)\<lparr>m_score := (m_score (matches s ! mr))(c := Some total)\<rparr>"
  define m2 where "m2 = (if total \<ge> m_length m1 then m1\<lparr>m_isOver := True\<rparr> else m1)"
  define m4 where "m4 = m2\<lparr>m_currentGame := Some ((Game_createNew rule newGameID)
                      \<lparr>g_hasStarted := True, g_turnPlayer := winner, g_turnNumber := 1\<rparr>)\<rparr>"
  have sc: "m_score m2 c = Some total" "\<And>c'. c' \<noteq> c \<Longrightarrow> m_score m2 c' = m_score (matches s ! mr) c'"
    "m_length m2 = m_length (matches s ! mr)" "m_currentGame m2 = m_currentGame (matches s ! mr)"
    "m_isOver m2 = (m_isOver (matches s ! mr) \<or> total \<ge> m_length (matches s ! mr))"
    by (simp_all add: m2_def m1_def)
  let ?r1 = "reply\<lparr>sendAfter :=
                Some (ToMatch mr [(EVENT_MATCH_OVER, MatchResult mr winner resigned)])\<rparr>"
  let ?r2 = "reply\<lparr>sendAfter :=
                Some (ToMatch mr [(EVENT_GAME_OVER, MatchResult mr winner resigned),
                                  (EVENT_GAME_RESTART, GameRestart mr resigned)])\<rparr>"
  have run: "endGame s k winner resigned reply newGameID =
               (if m_isOver m2 then (Return True, ?r1, updMatch s mr (\<lambda>x. m2), [])
                else (Return True, ?r2, updMatch s mr (\<lambda>x. m4), []))"
    using mr rule game w v
    by (simp add: endGame_def Let_def numGe_def numAdd_def m4_def m2_def m1_def total_def c_def
        Match_createNewGame_def)
  have sc4: "m_score m4 = m_score m2" "m_length m4 = m_length m2" "m_isOver m4 = m_isOver m2"
    "m_currentGame m4 = Some ((Game_createNew rule newGameID)
                    \<lparr>g_hasStarted := True, g_turnPlayer := winner, g_turnNumber := 1\<rparr>)"
    by (simp_all add: m4_def)
  show ?thesis
  proof (cases "m_isOver m2")
    case True
    show ?thesis
      by (rule exI[of _ ?r1], rule exI[of _ "updMatch s mr (\<lambda>x. m2)"])
         (use True inr sc in \<open>auto simp add: run updMatch_nth total_def[symmetric] c_def[symmetric]\<close>)
  next
    case False
    show ?thesis
      by (rule exI[of _ ?r2], rule exI[of _ "updMatch s mr (\<lambda>x. m4)"])
         (use False inr sc sc4 in \<open>auto simp add: run updMatch_nth total_def[symmetric] c_def[symmetric]\<close>)
  qed
qed

theorem endGame_scoring_witness:
  "getSocketMatch exLong ''sa'' = Some 0 \<and> 0 < length (matches exLong) \<and>
   getSocketRule exLong ''sa'' = Some exRule \<and>
   m_currentGame (matches exLong ! 0) = Some exGame \<and>
   m_score (matches exLong ! 0) (p_currentPieceType (players exLong ! 0)) = Some 0 \<and>
   m_length (matches exLong ! 0) = 2 \<and> \<not> m_isOver (matches exLong ! 0) \<and>
   (\<exists>reply' s'.
     endGame exLong ''sa'' (Some 0) False (newReply None) 101 = (Return True, reply', s', []) \<and>
     m_score (matches s' ! 0) (Some WHITE) = Some 1 \<and>
     \<not> m_isOver (matches s' ! 0) \<and>
     m_currentGame (matches s' ! 0) =
       Some ((Game_createNew exRule 101)
               \<lparr>g_hasStarted := True, g_turnPlayer := Some 0, g_turnNumber := 1\<rparr>)) \<and>
   getSocketMatch exServer ''sa'' = Some 0 \<and> 0 < length (matches exServer) \<and>
   getSocketRule exServer ''sa'' = Some exRule \<and>
   m_currentGame (matches exServer ! 0) = Some exGame \<and>
   m_score (matches exServer ! 0) (p_currentPieceType (players exServer ! 0)) = Some 0 \<and>
   m_length (matches exServer ! 0) = 1 \<and> \<not> m_isOver (matches exServer ! 0) \<and>
   (\<exists>reply' s'.
     endGame exServer ''sa'' (Some 0) False (newReply None) 101 = (Return True, reply', s', []) \<and>
     m_score (matches s' ! 0) (Some WHITE) = Some 1 \<and>
     m_isOver (matches s' ! 0) \<and>
     m_currentGame (matches s' ! 0) = Some exGame \<and>
     sendAfter reply' = Some (ToMatch 0 [(EVENT_MATCH_OVER, MatchResult 0 (Some 0) False)]))"
proof -
  have a1: "getSocketMatch exLong ''sa'' = Some 0"
    by (simp add: getSocketMatch_def exLong_def exServer_def exSockets_def)
  have a2: "0 < length (matches exLong)" by (simp add: exLong_def)
  have a3: "getSocketRule exLong ''sa'' = Some exRule"
    by (simp add: getSocketRule_def exLong_def exServer_def exSockets_def)
  have a4: "m_currentGame (matches exLong ! 0) = Some exGame"
    by (simp add: exLong_def exMatch_def)
  have a5: "m_score (matches exLong ! 0) (p_currentPieceType (players exLong ! 0)) = Some 0"
    by (simp add: exLong_def exMatch_def exServer_def exAlice_def)
  have a6: "m_length (matches exLong ! 0) = 2" "\<not> m_isOver (matches exLong ! 0)"
    by (simp_all add: exLong_def exMatch_def)
  have ca: "p_currentPieceType (players exLong ! 0) = Some WHITE"
    by (simp add: exLong_def exServer_def exAlice_def)
  have sa: "getGameScore exRule (boardState exGame) (players exLong) (Some 0) = 1"
    by (simp add: exRule_def)
  from endGame_scoring[OF a1 a2 a3 a4 refl a5, of False "newReply None" 101]
  obtain ra sa' where
    A: "endGame exLong ''sa'' (Some 0) False (newReply None) 101 = (Return True, ra, sa', [])"
       "m_score (matches sa' ! 0) (Some WHITE) = Some 1"
       "\<not> m_isOver (matches sa' ! 0)"
       "m_currentGame (matches sa' ! 0) =
         Some ((Game_createNew exRule 101)
               \<lparr>g_hasStarted := True, g_turnPlayer := Some 0, g_turnNumber := 1\<rparr>)"
    using a6(2) unfolding ca sa a6(1) by (elim exE conjE) simp
  have b1: "getSocketMatch exServer ''sa'' = Some 0"
    by (simp add: getSocketMatch_def exServer_def exSockets_def)
  have b2: "0 < length (matches exServer)" by (simp add: exServer_def)
  have b3: "getSocketRule exServer ''sa'' = Some exRule"
    by (simp add: getSocketRule_def exServer_def exSockets_def)
  have b4: "m_currentGame (matches exServer ! 0) = Some exGame"
    by (simp add: exServer_def exMatch_def)
  have b5: "m_score (matches exServer ! 0) (p_currentPieceType (players exServer ! 0)) = Some 0"
    by (simp add: exMatch_def exServer_def exAlice_def)
  have b6: "m_length (matches exServer ! 0) = 1" "\<not> m_isOver (matches exServer ! 0)"
    by (simp_all add: exServer_def exMatch_def)
  have cb: "p_currentPieceType (players exServer ! 0) = Some WHITE"
    by (simp add: exServer_def exAlice_def)
  have sb: "getGameScore exRule (boardState exGame) (players exServer) (Some 0) = 1"
    by (simp add: exRule_def)
  from endGame_scoring[OF b1 b2 b3 b4 refl b5, of False "newReply None" 101]
  obtain rb sb' where
    B: "endGame exServer ''sa'' (Some 0) False (newReply None) 101 = (Return True, rb, sb', [])"
       "m_score (matches sb' ! 0) (Some WHITE) = Some 1"
       "m_isOver (matches sb' ! 0)"
       "m_currentGame (matches sb' ! 0) = Some exGame"
       "sendAfter rb = Some (ToMatch 0 [(EVENT_MATCH_OVER, MatchResult 0 (Some 0) False)])"
    using b6(2) unfolding cb sb b6(1) b4 by (elim exE conjE) simp
  have EA: "\<exists>reply' s'.
     endGame exLong ''sa'' (Some 0) False (newReply None) 101 = (Return True, reply', s', []) \<and>
     m_score (matches s' ! 0) (Some WHITE) = Some 1 \<and>
     \<not> m_isOver (matches s' ! 0) \<and>
     m_currentGame (matches s' ! 0) =
       Some ((Game_createNew exRule 101)
               \<lparr>g_hasStarted := True, g_turnPlayer := Some 0, g_turnNumber := 1\<rparr>)"
    by (rule exI[of _ ra], rule exI[of _ sa'], intro conjI) (rule A)+
  have EB: "\<exists>reply' s'.
     endGame exServer ''sa'' (Some 0) False (newReply None) 101 = (Return True, reply', s', []) \<and>
     m_score (matches s' ! 0) (Some WHITE) = Some 1 \<and>
     m_isOver (matches s' ! 0) \<and>
     m_currentGame (matches s' ! 0) = Some exGame \<and>
     sendAfter reply' = Some (ToMatch 0 [(EVENT_MATCH_OVER, MatchResult 0 (Some 0) False)])"
    by (rule exI[of _ rb], rule exI[of _ sb'], intro conjI) (rule B)+
  show ?thesis
    by (intro conjI a1 a2 a3 a4 a5 a6 EA b1 b2 b3 b4 b5 b6 EB)
qed


subsection \<open>The rule of a match\<close>



lemma seated_fields [simp]:
  "length (matches (seated s mr gp)) = length (matches s)"
  "length (players (seated s mr gp)) = length (players s)"
  "sockets (seated s mr gp) = sockets s"
  "clients (seated s mr gp) = clients s"
  by (simp_all add: seated_def Let_def)

lemma seated_other_match: "i \<noteq> mr \<Longrightarrow> matches (seated s mr gp) ! i = matches s ! i"
  by (simp add: seated_def Let_def updMatch_nth)


lemma seated_guest:
  "mr < length (matches s) \<Longrightarrow> m_guest (matches (seated s mr gp) ! mr) = Some gp"
  by (simp add: seated_def Let_def updMatch_nth Match_addGuestPlayer_def)

lemma seatGuest_cases:
  assumes "seatGuest s k reply mr gp rule = (c, r1, s1, o1)"
  shows "(c = Throw \<and> s1 = seated s mr gp) \<or>
         (c = Return True \<and> r_ruleName r1 = Some ''RuleBgCasual'' \<and>
          (\<exists>f. s1 = setSocketRule (setSocketMatch (updMatch (seated s mr gp) mr f) k mr) k rule \<and>
                (\<forall>m. m_ruleName (f m) = m_ruleName m \<and> m_guest (f m) = m_guest m)))"
proof (cases "m_currentGame (matches (seated s mr gp) ! mr)")
  case None
  with assms show ?thesis by (auto simp: seatGuest_def Let_def)
next
  case (Some g)
  let ?f = "\<lambda>m. m\<lparr>m_currentGame := Some (g\<lparr>g_hasStarted := True, g_turnPlayer := m_host m,
                                            g_turnNumber := 1\<rparr>)\<rparr>"
  from assms Some have
    "c = Return True" "r_ruleName r1 = Some ''RuleBgCasual''"
    "s1 = setSocketRule (setSocketMatch (updMatch (seated s mr gp) mr ?f) k mr) k rule"
    by (auto simp: seatGuest_def Let_def)
  moreover have "\<forall>m. m_ruleName (?f m) = m_ruleName m \<and> m_guest (?f m) = m_guest m"
    by simp
  ultimately show ?thesis by blast
qed

















subsection \<open>Lookups\<close>

lemma firstIndex_Some:
  "firstIndex P xs = Some i \<Longrightarrow> i < length xs \<and> P (xs ! i)"
proof (induction xs arbitrary: i)
  case Nil
  then show ?case by simp
next
  case (Cons x xs)
  then show ?case by (cases "P x") auto
qed

lemma firstIndex_None: "(firstIndex P xs = None) = (\<forall>x\<in>set xs. \<not> P x)"
  by (induction xs) auto

lemma firstIndex_cong:
  "length xs = length ys \<Longrightarrow> (\<And>i. i < length xs \<Longrightarrow> P (xs ! i) = Q (ys ! i)) \<Longrightarrow>
   firstIndex P xs = firstIndex Q ys"
proof (induction xs arbitrary: ys)
  case Nil
  then show ?case by simp
next
  case (Cons x xs)
  then obtain y ys' where ys: "ys = y # ys'" by (cases ys) auto
  from Cons.prems(2)[of 0] ys have h: "P x = Q y" by simp
  have "firstIndex P xs = firstIndex Q ys'"
  proof (rule Cons.IH)
    show "length xs = length ys'" using Cons.prems(1) ys by simp
  next
    fix i assume "i < length xs"
    with Cons.prems(2)[of "Suc i"] ys show "P (xs ! i) = Q (ys' ! i)" by simp
  qed
  with h ys show ?case by simp
qed


lemma getPlayerByID_Some:
  "getPlayerByID s ident = Some pr \<Longrightarrow> pr < length (players s) \<and> Some (p_id (players s ! pr)) = ident"
  by (auto simp: getPlayerByID_def split: option.splits dest: firstIndex_Some)

lemma getMatchByID_Some:
  "getMatchByID s ident = Some mr \<Longrightarrow> mr < length (matches s) \<and> Some (m_id (matches s ! mr)) = ident"
  by (auto simp: getMatchByID_def split: option.splits dest: firstIndex_Some)

lemma getOpenMatchByHostSlug_Some:
  "getOpenMatchByHostSlug s h = Some mr \<Longrightarrow>
     mr < length (matches s) \<and> m_guest (matches s ! mr) = None \<and> \<not> m_isOver (matches s ! mr)"
  by (auto simp: getOpenMatchByHostSlug_def Let_def openWithSlug_def split: if_splits
      dest!: firstIndex_Some)

subsection \<open>Who receives the dice roll\<close>

lemma sendPlayerMessage_set:
  "set (sendPlayerMessage s q msg pl) =
     {e. \<exists>k'. p_socketID (players s ! q) = Some k' \<and> k' \<in> clients s \<and>
              e = \<lparr>to_socket = k', em_message = msg, em_params = pl\<rparr>}"
  by (auto simp: sendPlayerMessage_def sendMessage_def split: option.splits)

lemma sendResolved_set:
  "set (case getPlayerByID s (Some pid) of None \<Rightarrow> []
        | Some q \<Rightarrow> sendPlayerMessage s q msg pl) =
     {e. \<exists>q k'. getPlayerByID s (Some pid) = Some q \<and>
            p_socketID (players s ! q) = Some k' \<and> k' \<in> clients s \<and>
            e = \<lparr>to_socket = k', em_message = msg, em_params = pl\<rparr>}"
  by (cases "getPlayerByID s (Some pid)") (auto simp: sendPlayerMessage_set)

lemma sendOthersMessage_set:
  "set (sendOthersMessage s mr ex msg pl) =
     {e. \<exists>pid q k'. pid \<in> set (m_players (matches s ! mr)) \<and> pid \<noteq> ex \<and>
            getPlayerByID s (Some pid) = Some q \<and>
            p_socketID (players s ! q) = Some k' \<and> k' \<in> clients s \<and>
            e = \<lparr>to_socket = k', em_message = msg, em_params = pl\<rparr>}"
proof (rule set_eqI)
  fix e
  have "e \<in> set (sendOthersMessage s mr ex msg pl) \<longleftrightarrow>
        (\<exists>pid. pid \<in> set (m_players (matches s ! mr)) \<and> pid \<noteq> ex \<and>
           e \<in> set (case getPlayerByID s (Some pid) of None \<Rightarrow> []
                     | Some q \<Rightarrow> sendPlayerMessage s q msg pl))"
    by (auto simp: sendOthersMessage_def)
  also have "\<dots> \<longleftrightarrow>
        (\<exists>pid q k'. pid \<in> set (m_players (matches s ! mr)) \<and> pid \<noteq> ex \<and>
            getPlayerByID s (Some pid) = Some q \<and>
            p_socketID (players s ! q) = Some k' \<and> k' \<in> clients s \<and>
            e = \<lparr>to_socket = k', em_message = msg, em_params = pl\<rparr>)"
    unfolding sendResolved_set by blast
  finally show "e \<in> set (sendOthersMessage s mr ex msg pl) \<longleftrightarrow>
     e \<in> {e. \<exists>pid q k'. pid \<in> set (m_players (matches s ! mr)) \<and> pid \<noteq> ex \<and>
            getPlayerByID s (Some pid) = Some q \<and>
            p_socketID (players s ! q) = Some k' \<and> k' \<in> clients s \<and>
            e = \<lparr>to_socket = k', em_message = msg, em_params = pl\<rparr>}"
    by simp
qed

lemma sendPlayerMessage_cong:
  "players s' = players s \<Longrightarrow> clients s' = clients s \<Longrightarrow>
   sendPlayerMessage s' = sendPlayerMessage s"
  by (auto simp: sendPlayerMessage_def fun_eq_iff split: option.splits)

lemma getPlayerByID_cong:
  "players s' = players s \<Longrightarrow> getPlayerByID s' = getPlayerByID s"
  by (auto simp: getPlayerByID_def fun_eq_iff split: option.splits)

lemma getMatchByID_cong:
  "matches s' = matches s \<Longrightarrow> getMatchByID s' = getMatchByID s"
  by (auto simp: getMatchByID_def fun_eq_iff split: option.splits)

lemma sendOthersMessage_cong:
  assumes "players s' = players s" "clients s' = clients s"
    "m_players (matches s' ! mr) = m_players (matches s ! mr)"
  shows "sendOthersMessage s' mr ex msg pl = sendOthersMessage s mr ex msg pl"
  unfolding sendOthersMessage_def
  by (simp only: sendPlayerMessage_cong[OF assms(1,2)] getPlayerByID_cong[OF assms(1)] assms(3))

lemma handleRollDice_accepted:
  assumes "handleRollDice s k ps reply rnd = (Return True, reply', s', out)"
  shows "\<exists>mr pr game rule.
           getSocketMatch s k = Some mr \<and> getSocketPlayer s k = Some pr \<and>
           getSocketRule s k = Some rule \<and>
           m_currentGame (matches s ! mr) = Some game \<and>
           g_hasStarted game \<and> \<not> Game_diceWasRolled game \<and>
           (\<exists>t. g_turnPlayer game = Some t \<and> p_id (players s ! t) = p_id (players s ! pr)) \<and>
           s' = updMatch s mr
                  (\<lambda>m. m\<lparr>m_currentGame :=
                           Some (Game_snapshotState
                                   (game\<lparr>g_turnDice := Some (rollDice rule game rnd)\<rparr>))\<rparr>) \<and>
           out = sendOthersMessage s' mr (p_id (players s ! pr)) EVENT_DICE_ROLL
                   (Event (MatchOnly mr))"
  using assms
  by (auto simp: handleRollDice_def refuse_def Let_def split: option.splits if_splits)

lemma concat_length_le:
  "(\<And>x. length (f x) \<le> 1) \<Longrightarrow> length (concat (map f xs)) \<le> length xs"
proof (induction xs)
  case Nil
  then show ?case by simp
next
  case (Cons x xs)
  from Cons.prems[of x] Cons.IH[OF Cons.prems] show ?case by simp
qed

lemma sendOthersMessage_length:
  "length (sendOthersMessage s mr ex msg pl) \<le>
   length (filter (\<lambda>pid. pid \<noteq> ex) (m_players (matches s ! mr)))"
  unfolding sendOthersMessage_def
  by (rule concat_length_le)
     (simp add: sendPlayerMessage_def sendMessage_def split: option.splits)

lemma cookie_player_1: "cookiePlayerID ''player_id=1'' = Some 1"
  by code_simp

lemma handleRollDice_run:
  assumes m: "getSocketMatch s k = Some mr" and p: "getSocketPlayer s k = Some pr"
    and r: "getSocketRule s k = Some rule"
    and g: "m_currentGame (matches s ! mr) = Some game" and st: "g_hasStarted game"
    and t: "g_turnPlayer game = Some t" "p_id (players s ! t) = p_id (players s ! pr)"
    and nd: "\<not> Game_diceWasRolled game"
  shows "\<exists>reply' s'.
           handleRollDice s k ps reply rnd =
             (Return True, reply', s',
              sendOthersMessage s mr (p_id (players s ! pr)) EVENT_DICE_ROLL
                (Event (MatchOnly mr)))"
proof -
  define s1 where "s1 = updMatch s mr
      (\<lambda>m. m\<lparr>m_currentGame :=
               Some (Game_snapshotState (game\<lparr>g_turnDice := Some (rollDice rule game rnd)\<rparr>))\<rparr>)"
  have mp: "m_players (matches s1 ! mr) = m_players (matches s ! mr)"
    by (simp add: s1_def updMatch_nth)
  have ps1: "players s1 = players s" "clients s1 = clients s" by (simp_all add: s1_def)
  have "handleRollDice s k ps reply rnd =
          (Return True,
           reply\<lparr>r_player := g_turnPlayer (Game_snapshotState
                     (game\<lparr>g_turnDice := Some (rollDice rule game rnd)\<rparr>)),
                 r_dice := Some (rollDice rule game rnd)\<rparr>,
           s1,
           sendOthersMessage s1 mr (p_id (players s ! pr)) EVENT_DICE_ROLL
             (Event (MatchOnly mr)))"
    using assms by (simp add: handleRollDice_def Let_def s1_def)
  then show ?thesis
    by (simp add: sendOthersMessage_cong[OF ps1 mp] ps1)
qed

lemma ex_rebind:
  "handleCreateGuest exEnv exCookie ''sb'' (Some exParams) (newReply None) 3 =
     (Return True,
      (newReply None)\<lparr>sendAfter := Some (ToPlayer 0 EVENT_MATCH_START (MatchOnly 0)),
                      r_player := Some 0, reconnected := Some True\<rparr>,
      exRebound, [])"
  by (simp add: exRebound_def handleCreateGuest_def findReturning_def desiredNameOf_def
      rebindGuest_def exCookie_def exServer_def exSockets_def exParams_def getSocketPlayer_def
      cookie_player_1 truthyS_def orEmpty_def getPlayerByID_def getMatchByID_def exAlice_def
      exBob_def exMatch_def exEnv_def Let_def updPlayer_def)

lemma exRebound_fields:
  "getSocketMatch exRebound ''sb'' = Some 0"
  "getSocketPlayer exRebound ''sb'' = Some 0"
  "getSocketRule exRebound ''sb'' = Some exRule"
  "matches exRebound = [exMatch]"
  "players exRebound = [exAlice\<lparr>p_socketID := Some ''sb''\<rparr>, exBob]"
  "clients exRebound = {''sa'', ''sb''}"
  by (simp_all add: exRebound_def handleCreateGuest_def findReturning_def desiredNameOf_def
      rebindGuest_def exCookie_def exServer_def exSockets_def exParams_def getSocketPlayer_def
      getSocketMatch_def getSocketRule_def
      cookie_player_1 truthyS_def orEmpty_def getPlayerByID_def getMatchByID_def exAlice_def
      exBob_def exMatch_def exEnv_def Let_def updPlayer_def)

lemma ex_echo:
  "handleRollDice exRebound ''sb'' (Some exParams) (newReply None) 14 =
     (Return True, (newReply None)\<lparr>r_player := Some 0, r_dice := Some [3, 3]\<rparr>,
      updMatch exRebound 0
        (\<lambda>m. m\<lparr>m_currentGame := Some (exRolledGame\<lparr>g_turnDice := Some [3, 3]\<rparr>)\<rparr>),
      [\<lparr>to_socket = ''sb'', em_message = EVENT_DICE_ROLL, em_params = Event (MatchOnly 0)\<rparr>])"
  by (simp add: handleRollDice_def exRebound_fields exMatch_def exGame_def exRule_def exAlice_def
      exBob_def exRolledGame_def Game_diceWasRolled_def Game_snapshotState_def Let_def
      sendOthersMessage_def getPlayerByID_def sendPlayerMessage_def sendMessage_def updMatch_def)

text \<open>
  C7, as claimed, fails: the event can come back to the connection that rolled.  The
  connection \<open>sb\<close>, on which Bob plays, sends CREATE_GUEST with the cookie of player 1: it
  is rebound to Alice, while Bob's record still names \<open>sb\<close>.  The ROLL_DICE that \<open>sb\<close>
  then sends for Alice is accepted, and its EVENT_DICE_ROLL, meant for Bob, goes to \<open>sb\<close>.
\<close>

theorem dice_roll_echo_counterexample:
  "case handleCreateGuest exEnv exCookie ''sb'' (Some exParams) (newReply None) 3 of
     (c1, r1, s1, o1) \<Rightarrow>
        c1 = Return True \<and> reconnected r1 = Some True \<and> r_player r1 = Some 0 \<and>
        getSocketPlayer s1 ''sb'' = Some 0 \<and>
        map p_socketID (players s1) = [Some ''sb'', Some ''sb''] \<and>
        (case handleRollDice s1 ''sb'' (Some exParams) (newReply None) 14 of
           (c2, r2, s2, o2) \<Rightarrow>
              c2 = Return True \<and> r_player r2 = Some 0 \<and>
              o2 = [\<lparr>to_socket = ''sb'', em_message = EVENT_DICE_ROLL,
                     em_params = Event (MatchOnly 0)\<rparr>])"
  by (simp add: ex_rebind ex_echo exRebound_fields exAlice_def exBob_def)

text \<open>
  C7, amended.  A ROLL_DICE request from a connection with a match, a player and a rule,
  in a started game whose turn player has the id of that player and whose dice are not
  rolled, is accepted.  Its emissions are EVENT_DICE_ROLL, carrying the match, to the
  connection recorded for every entry of \<open>match.players\<close> that differs from the roller's
  id, is a registered player and whose recorded connection is live; at most one per such
  entry, and none for the roller's own entry.  The connection that rolled receives the
  event exactly when the record of another participant names that connection; where
  every participant has a connection of their own, the event is not echoed.  The instance
  below runs both: Alice rolls on \<open>sa\<close> and only \<open>sb\<close> is notified; after the rebinding
  of \<open>sb\<close>, the roll of \<open>sb\<close> comes back to \<open>sb\<close>.
\<close>

theorem dice_roll_to_others:
  assumes m: "getSocketMatch s k = Some mr" and p: "getSocketPlayer s k = Some pr"
    and r: "getSocketRule s k = Some rule"
    and g: "m_currentGame (matches s ! mr) = Some game" and st: "g_hasStarted game"
    and t: "g_turnPlayer game = Some t" "p_id (players s ! t) = p_id (players s ! pr)"
    and nd: "\<not> Game_diceWasRolled game"
  shows "\<exists>reply' s' out.
           handleRollDice s k ps reply rnd = (Return True, reply', s', out) \<and>
           set out =
             {e. \<exists>pid q k'. pid \<in> set (m_players (matches s ! mr)) \<and>
                    pid \<noteq> p_id (players s ! pr) \<and>
                    getPlayerByID s (Some pid) = Some q \<and>
                    p_socketID (players s ! q) = Some k' \<and> k' \<in> clients s \<and>
                    e = \<lparr>to_socket = k', em_message = EVENT_DICE_ROLL,
                         em_params = Event (MatchOnly mr)\<rparr>} \<and>
           length out \<le>
             length (filter (\<lambda>pid. pid \<noteq> p_id (players s ! pr)) (m_players (matches s ! mr))) \<and>
           ((\<exists>e\<in>set out. to_socket e = k) \<longleftrightarrow>
            (\<exists>pid q. pid \<in> set (m_players (matches s ! mr)) \<and>
                     pid \<noteq> p_id (players s ! pr) \<and>
                     getPlayerByID s (Some pid) = Some q \<and>
                     p_socketID (players s ! q) = Some k \<and> k \<in> clients s))"
proof -
  define out where "out = sendOthersMessage s mr (p_id (players s ! pr)) EVENT_DICE_ROLL
                (Event (MatchOnly mr))"
  from handleRollDice_run[OF assms, of ps reply rnd] obtain reply' s' where
    run: "handleRollDice s k ps reply rnd = (Return True, reply', s', out)"
    unfolding out_def by (elim exE)
  have set: "set out =
             {e. \<exists>pid q k'. pid \<in> set (m_players (matches s ! mr)) \<and>
                    pid \<noteq> p_id (players s ! pr) \<and>
                    getPlayerByID s (Some pid) = Some q \<and>
                    p_socketID (players s ! q) = Some k' \<and> k' \<in> clients s \<and>
                    e = \<lparr>to_socket = k', em_message = EVENT_DICE_ROLL,
                         em_params = Event (MatchOnly mr)\<rparr>}"
    unfolding out_def by (rule sendOthersMessage_set)
  have len: "length out \<le>
             length (filter (\<lambda>pid. pid \<noteq> p_id (players s ! pr)) (m_players (matches s ! mr)))"
    unfolding out_def by (rule sendOthersMessage_length)
  have echo: "(\<exists>e\<in>set out. to_socket e = k) \<longleftrightarrow>
            (\<exists>pid q. pid \<in> set (m_players (matches s ! mr)) \<and>
                     pid \<noteq> p_id (players s ! pr) \<and>
                     getPlayerByID s (Some pid) = Some q \<and>
                     p_socketID (players s ! q) = Some k \<and> k \<in> clients s)"
  proof
    assume "\<exists>e\<in>set out. to_socket e = k"
    then obtain e where e: "e \<in> set out" and k: "to_socket e = k" by (elim bexE)
    from e obtain pid q k' where
      f: "pid \<in> set (m_players (matches s ! mr))" "pid \<noteq> p_id (players s ! pr)"
         "getPlayerByID s (Some pid) = Some q" "p_socketID (players s ! q) = Some k'"
         "k' \<in> clients s"
         "e = \<lparr>to_socket = k', em_message = EVENT_DICE_ROLL, em_params = Event (MatchOnly mr)\<rparr>"
      unfolding set by auto
    from f(6) k have "k' = k" by simp
    with f(1-5) show "\<exists>pid q. pid \<in> set (m_players (matches s ! mr)) \<and>
                     pid \<noteq> p_id (players s ! pr) \<and>
                     getPlayerByID s (Some pid) = Some q \<and>
                     p_socketID (players s ! q) = Some k \<and> k \<in> clients s"
      by (intro exI[of _ pid] exI[of _ q]) simp
  next
    assume "\<exists>pid q. pid \<in> set (m_players (matches s ! mr)) \<and>
                     pid \<noteq> p_id (players s ! pr) \<and>
                     getPlayerByID s (Some pid) = Some q \<and>
                     p_socketID (players s ! q) = Some k \<and> k \<in> clients s"
    then obtain pid q where
      f: "pid \<in> set (m_players (matches s ! mr))" "pid \<noteq> p_id (players s ! pr)"
         "getPlayerByID s (Some pid) = Some q" "p_socketID (players s ! q) = Some k"
         "k \<in> clients s"
      by (elim exE conjE)
    let ?e = "\<lparr>to_socket = k, em_message = EVENT_DICE_ROLL, em_params = Event (MatchOnly mr)\<rparr>"
    have "\<exists>pid q k'. pid \<in> set (m_players (matches s ! mr)) \<and>
                    pid \<noteq> p_id (players s ! pr) \<and>
                    getPlayerByID s (Some pid) = Some q \<and>
                    p_socketID (players s ! q) = Some k' \<and> k' \<in> clients s \<and>
                    ?e = \<lparr>to_socket = k', em_message = EVENT_DICE_ROLL,
                         em_params = Event (MatchOnly mr)\<rparr>"
      by (rule exI[of _ pid], rule exI[of _ q], rule exI[of _ k]) (simp add: f)
    then have "?e \<in> set out" unfolding set by simp
    moreover have "to_socket ?e = k" by simp
    ultimately show "\<exists>e\<in>set out. to_socket e = k" by (rule bexI[rotated])
  qed
  show ?thesis
    by (rule exI[of _ reply'], rule exI[of _ s'], rule exI[of _ out])
       (intro conjI run set len echo)
qed

theorem dice_roll_to_others_witness:
  "getSocketMatch exServer ''sa'' = Some 0 \<and> getSocketPlayer exServer ''sa'' = Some 0 \<and>
   getSocketRule exServer ''sa'' = Some exRule \<and>
   m_currentGame (matches exServer ! 0) = Some exGame \<and> g_hasStarted exGame \<and>
   g_turnPlayer exGame = Some 0 \<and> \<not> Game_diceWasRolled exGame \<and>
   (\<exists>reply' s' out.
      handleRollDice exServer ''sa'' (Some exParams) (newReply None) 14 =
        (Return True, reply', s', out) \<and>
      set out = {\<lparr>to_socket = ''sb'', em_message = EVENT_DICE_ROLL,
                  em_params = Event (MatchOnly 0)\<rparr>} \<and>
      length out \<le> 1 \<and>
      \<not> (\<exists>e\<in>set out. to_socket e = ''sa'')) \<and>
   getSocketMatch exRebound ''sb'' = Some 0 \<and> getSocketPlayer exRebound ''sb'' = Some 0 \<and>
   getSocketRule exRebound ''sb'' = Some exRule \<and>
   m_currentGame (matches exRebound ! 0) = Some exGame \<and>
   (\<exists>reply' s' out.
      handleRollDice exRebound ''sb'' (Some exParams) (newReply None) 14 =
        (Return True, reply', s', out) \<and>
      length out \<le> 1 \<and>
      (\<exists>e\<in>set out. to_socket e = ''sb''))"
proof -
  have a1: "getSocketMatch exServer ''sa'' = Some 0"
    by (simp add: getSocketMatch_def exServer_def exSockets_def)
  have a2: "getSocketPlayer exServer ''sa'' = Some 0"
    by (simp add: getSocketPlayer_def exServer_def exSockets_def)
  have a3: "getSocketRule exServer ''sa'' = Some exRule"
    by (simp add: getSocketRule_def exServer_def exSockets_def)
  have a4: "m_currentGame (matches exServer ! 0) = Some exGame"
    by (simp add: exServer_def exMatch_def)
  have g1: "g_hasStarted exGame" and g2: "g_turnPlayer exGame = Some 0"
    and g3: "\<not> Game_diceWasRolled exGame"
    by (simp_all add: exGame_def Game_diceWasRolled_def)
  have mp: "m_players (matches exServer ! 0) = [1, 2]" "p_id (players exServer ! 0) = 1"
    by (simp_all add: exServer_def exMatch_def exAlice_def)
  have bob: "getPlayerByID exServer (Some 2) = Some 1"
    "p_socketID (players exServer ! 1) = Some ''sb''" "''sb'' \<in> clients exServer"
    by (simp_all add: getPlayerByID_def exServer_def exAlice_def exBob_def)
  from dice_roll_to_others[OF a1 a2 a3 a4 g1 g2 refl g3, of "Some exParams" "newReply None" 14]
  obtain reply' s' out where
    run: "handleRollDice exServer ''sa'' (Some exParams) (newReply None) 14 =
            (Return True, reply', s', out)"
    and set: "set out =
             {e. \<exists>pid q k'. pid \<in> set [1, 2] \<and> pid \<noteq> 1 \<and>
                    getPlayerByID exServer (Some pid) = Some q \<and>
                    p_socketID (players exServer ! q) = Some k' \<and> k' \<in> clients exServer \<and>
                    e = \<lparr>to_socket = k', em_message = EVENT_DICE_ROLL,
                         em_params = Event (MatchOnly 0)\<rparr>}"
    and len: "length out \<le> length (filter (\<lambda>pid. pid \<noteq> 1) [1, 2 :: int])"
    and echo: "(\<exists>e\<in>set out. to_socket e = ''sa'') \<longleftrightarrow>
            (\<exists>pid q. pid \<in> set [1, 2] \<and> pid \<noteq> 1 \<and>
                     getPlayerByID exServer (Some pid) = Some q \<and>
                     p_socketID (players exServer ! q) = Some ''sa'' \<and> ''sa'' \<in> clients exServer)"
    unfolding mp by (elim exE conjE)
  have s1: "set out = {\<lparr>to_socket = ''sb'', em_message = EVENT_DICE_ROLL,
                  em_params = Event (MatchOnly 0)\<rparr>}"
    unfolding set using bob by auto
  have l1: "length out \<le> 1" using len by simp
  have e1: "\<not> (\<exists>e\<in>set out. to_socket e = ''sa'')"
    unfolding echo using bob by auto
  have A: "\<exists>reply' s' out.
      handleRollDice exServer ''sa'' (Some exParams) (newReply None) 14 =
        (Return True, reply', s', out) \<and>
      set out = {\<lparr>to_socket = ''sb'', em_message = EVENT_DICE_ROLL,
                  em_params = Event (MatchOnly 0)\<rparr>} \<and>
      length out \<le> 1 \<and>
      \<not> (\<exists>e\<in>set out. to_socket e = ''sa'')"
    by (rule exI[of _ reply'], rule exI[of _ s'], rule exI[of _ out], intro conjI)
       (rule run s1 l1 e1)+
  have b4: "m_currentGame (matches exRebound ! 0) = Some exGame"
    by (simp add: exRebound_fields exMatch_def)
  have t: "p_id (players exRebound ! 0) = p_id (players exRebound ! 0)" by simp
  have mp': "m_players (matches exRebound ! 0) = [1, 2]" "p_id (players exRebound ! 0) = 1"
    by (simp_all add: exRebound_fields exMatch_def exAlice_def)
  have bob': "getPlayerByID exRebound (Some 2) = Some 1"
    "p_socketID (players exRebound ! 1) = Some ''sb''" "''sb'' \<in> clients exRebound"
    by (simp_all add: getPlayerByID_def exRebound_fields exAlice_def exBob_def)
  from dice_roll_to_others[OF exRebound_fields(1,2,3) b4 g1 g2 t g3,
         of "Some exParams" "newReply None" 14]
  obtain reply2 s2 out2 where
    run2: "handleRollDice exRebound ''sb'' (Some exParams) (newReply None) 14 =
            (Return True, reply2, s2, out2)"
    and len2: "length out2 \<le> length (filter (\<lambda>pid. pid \<noteq> 1) [1, 2 :: int])"
    and echo2: "(\<exists>e\<in>set out2. to_socket e = ''sb'') \<longleftrightarrow>
            (\<exists>pid q. pid \<in> set [1, 2] \<and> pid \<noteq> 1 \<and>
                     getPlayerByID exRebound (Some pid) = Some q \<and>
                     p_socketID (players exRebound ! q) = Some ''sb'' \<and>
                     ''sb'' \<in> clients exRebound)"
    unfolding mp' by (elim exE conjE)
  have l2: "length out2 \<le> 1" using len2 by simp
  have "\<exists>pid q. pid \<in> set [1, 2] \<and> pid \<noteq> 1 \<and>
                     getPlayerByID exRebound (Some pid) = Some q \<and>
                     p_socketID (players exRebound ! q) = Some ''sb'' \<and>
                     ''sb'' \<in> clients exRebound"
    using bob' by (intro exI[of _ 2] exI[of _ 1]) simp
  then have e2: "\<exists>e\<in>set out2. to_socket e = ''sb''" unfolding echo2 .
  have B: "\<exists>reply' s' out.
      handleRollDice exRebound ''sb'' (Some exParams) (newReply None) 14 =
        (Return True, reply', s', out) \<and>
      length out \<le> 1 \<and>
      (\<exists>e\<in>set out. to_socket e = ''sb'')"
    by (rule exI[of _ reply2], rule exI[of _ s2], rule exI[of _ out2], intro conjI)
       (rule run2 l2 e2)+
  show ?thesis
    by (intro conjI a1 a2 a3 a4 g1 g2 g3 A exRebound_fields(1,2,3) b4 B)
qed

subsection \<open>Reconnection\<close>

text \<open>
  C8, as claimed, fails: the connection \<open>sa\<close> already has a player; its CREATE_GUEST
  carrying Alice's id 1, whose match 10 exists and is not over, is not looked up by that
  id (there is no cookie either), and a third Player is created, with \<open>reconnected\<close>
  false.
\<close>

theorem reconnect_counterexample:
  "getPlayerByID exServer (Some 1) = Some 0 \<and>
   getMatchByID exServer (p_currentMatch (players exServer ! 0)) = Some 0 \<and>
   \<not> m_isOver (matches exServer ! 0) \<and>
   length (players exServer) = 2 \<and>
   (case handleCreateGuest exEnv exServer ''sa'' (Some (exParams\<lparr>playerID := Some 1\<rparr>))
           (newReply None) 3 of
      (c, r, s', out) \<Rightarrow>
         c = Return True \<and> reconnected r = Some False \<and> r_player r = Some 2 \<and>
         length (players s') = 3 \<and> sk_player (sockets s' ''sa'') = Some 2)"
  by (simp add: handleCreateGuest_def createGuestPlayer_def ex_defs getSocketPlayer_def
      getPlayerByID_def getMatchByID_def truthyS_def truthyN_def Let_def setSocketPlayer_def
      Player_createNew_def newReply_def findReturning_def desiredNameOf_def)

lemma handleCreateGuest_rebind:
  assumes "findReturning s k ps = (Some pr, s1)"
    and "s2 = (if desiredNameOf ps \<noteq> []
               then updPlayer s1 pr (\<lambda>p. p\<lparr>p_name := desiredNameOf ps\<rparr>) else s1)"
    and "getMatchByID s2 (p_currentMatch (players s2 ! pr)) = Some mr"
    and "\<not> m_isOver (matches s2 ! mr)"
    and "loadRule E (m_ruleName (matches s2 ! mr)) = Some rule"
  shows "handleCreateGuest E s k ps reply newID = rebindGuest s2 k reply pr mr rule"
  unfolding handleCreateGuest_def Let_def assms(1) fst_conv snd_conv option.case
    assms(2)[symmetric]
  using assms(3-5) by simp

text \<open>
  C8, amended.  The id of the request is consulted only on a connection that has no
  player yet.  On such a connection, a CREATE_GUEST request carrying the non-zero id of
  an existing player whose current match exists, is not over and names a rule that
  loads, is answered with \<open>true\<close>; the connection is bound to that player, that match
  and that rule; the arrays of players and matches keep their lengths, no match or game
  changes, no other player and no other connection changes; the reply names the player
  and is marked \<open>reconnected\<close>.
\<close>

theorem reconnect_rebinds:
  assumes free: "getSocketPlayer s k = None"
    and pid: "playerID p = Some i" "i \<noteq> 0"
    and pl: "getPlayerByID s (Some i) = Some pr"
    and ma: "getMatchByID s (p_currentMatch (players s ! pr)) = Some mr"
    and no: "\<not> m_isOver (matches s ! mr)"
    and ru: "loadRule E (m_ruleName (matches s ! mr)) = Some rule"
  shows "\<exists>reply' s'.
           handleCreateGuest E s k (Some p) reply newID = (Return True, reply', s', []) \<and>
           sk_player (sockets s' k) = Some pr \<and> sk_match (sockets s' k) = Some mr \<and>
           sk_rule (sockets s' k) = Some rule \<and>
           length (players s') = length (players s) \<and> matches s' = matches s \<and>
           p_id (players s' ! pr) = i \<and> p_socketID (players s' ! pr) = Some k \<and>
           (\<forall>q. q \<noteq> pr \<longrightarrow> players s' ! q = players s ! q) \<and>
           (\<forall>k'. k' \<noteq> k \<longrightarrow> sockets s' k' = sockets s k') \<and>
           reconnected reply' = Some True \<and> r_player reply' = Some pr \<and>
           sendAfter reply' = Some (ToPlayer pr EVENT_MATCH_START (MatchOnly mr))"
proof -
  from getPlayerByID_Some[OF pl] have inr: "pr < length (players s)" and
    idp: "p_id (players s ! pr) = i" by auto
  define s1 where "s1 = updPlayer s pr (\<lambda>p. p\<lparr>p_socketID := Some k\<rparr>)"
  define s2 where "s2 = (if desiredNameOf (Some p) \<noteq> []
       then updPlayer s1 pr (\<lambda>q. q\<lparr>p_name := desiredNameOf (Some p)\<rparr>) else s1)"
  have fr: "findReturning s k (Some p) = (Some pr, s1)"
    using free pid pl by (simp add: findReturning_def truthyN_def s1_def)
  have m2: "matches s2 = matches s" by (simp add: s2_def s1_def)
  have len2: "length (players s2) = length (players s)" by (simp add: s2_def s1_def)
  have cm: "p_currentMatch (players s2 ! pr) = p_currentMatch (players s ! pr)"
    using inr by (simp add: s2_def s1_def updPlayer_nth)
  have id2: "p_id (players s2 ! pr) = i"
    using inr idp by (simp add: s2_def s1_def updPlayer_nth)
  have oth: "\<And>q. q \<noteq> pr \<Longrightarrow> players s2 ! q = players s ! q"
    by (simp add: s2_def s1_def updPlayer_nth)
  have so2: "sockets s2 = sockets s" by (simp add: s2_def s1_def)
  have g2: "getMatchByID s2 (p_currentMatch (players s2 ! pr)) = Some mr"
    using ma by (simp add: getMatchByID_cong[OF m2] cm)
  have run: "handleCreateGuest E s k (Some p) reply newID = rebindGuest s2 k reply pr mr rule"
    by (rule handleCreateGuest_rebind[OF fr s2_def g2]) (simp_all add: m2 no ru)
  define s6 where "s6 = setSocketRule (setSocketMatch (setSocketPlayer
                          (updPlayer s2 pr (\<lambda>p. p\<lparr>p_socketID := Some k\<rparr>)) k pr) k mr) k rule"
  have run': "handleCreateGuest E s k (Some p) reply newID =
          (Return True,
           reply\<lparr>sendAfter := Some (ToPlayer pr EVENT_MATCH_START (MatchOnly mr)),
                 r_player := Some pr, reconnected := Some True\<rparr>, s6, [])"
    by (simp add: run rebindGuest_def Let_def s6_def)
  have "sk_player (sockets s6 k) = Some pr \<and> sk_match (sockets s6 k) = Some mr \<and>
           sk_rule (sockets s6 k) = Some rule \<and>
           length (players s6) = length (players s) \<and> matches s6 = matches s \<and>
           p_id (players s6 ! pr) = i \<and> p_socketID (players s6 ! pr) = Some k \<and>
           (\<forall>q. q \<noteq> pr \<longrightarrow> players s6 ! q = players s ! q) \<and>
           (\<forall>k'. k' \<noteq> k \<longrightarrow> sockets s6 k' = sockets s k')"
    using inr len2 id2 oth by (simp add: s6_def updPlayer_nth m2 so2)
  with run' show ?thesis
    by (intro exI[of _ "reply\<lparr>sendAfter := Some (ToPlayer pr EVENT_MATCH_START (MatchOnly mr)),
                 r_player := Some pr, reconnected := Some True\<rparr>"] exI[of _ s6]) simp
qed


theorem reconnect_rebinds_witness:
  "getSocketPlayer exServer ''sc'' = None \<and>
   playerID (exParams\<lparr>playerID := Some 1\<rparr>) = Some 1 \<and> (1::int) \<noteq> 0 \<and>
   getPlayerByID exServer (Some 1) = Some 0 \<and>
   getMatchByID exServer (p_currentMatch (players exServer ! 0)) = Some 0 \<and>
   \<not> m_isOver (matches exServer ! 0) \<and>
   loadRule exEnv (m_ruleName (matches exServer ! 0)) = Some exRule \<and>
   (\<exists>reply' s'.
      handleCreateGuest exEnv exServer ''sc'' (Some (exParams\<lparr>playerID := Some 1\<rparr>))
        (newReply None) 3 = (Return True, reply', s', []) \<and>
      sk_player (sockets s' ''sc'') = Some 0 \<and> sk_match (sockets s' ''sc'') = Some 0 \<and>
      sk_rule (sockets s' ''sc'') = Some exRule \<and>
      length (players s') = length (players exServer) \<and> matches s' = matches exServer \<and>
      p_socketID (players s' ! 0) = Some ''sc'' \<and>
      reconnected reply' = Some True \<and> r_player reply' = Some 0)"
proof -
  have h1: "getSocketPlayer exServer ''sc'' = None"
    by (simp add: getSocketPlayer_def exServer_def exSockets_def exNoSocket_def)
  have h2: "playerID (exParams\<lparr>playerID := Some 1\<rparr>) = Some 1" by simp
  have h3: "(1::int) \<noteq> 0" by simp
  have h4: "getPlayerByID exServer (Some 1) = Some 0"
    by (simp add: getPlayerByID_def exServer_def exAlice_def)
  have h5: "getMatchByID exServer (p_currentMatch (players exServer ! 0)) = Some 0"
    by (simp add: getMatchByID_def exServer_def exAlice_def exMatch_def)
  have h6: "\<not> m_isOver (matches exServer ! 0)"
    by (simp add: exServer_def exMatch_def)
  have h7: "loadRule exEnv (m_ruleName (matches exServer ! 0)) = Some exRule"
    by (simp add: exServer_def exMatch_def exEnv_def)
  from reconnect_rebinds[OF h1 h2 h3 h4 h5 h6 h7, of "newReply None" 3]
  obtain reply' s' where
    r: "handleCreateGuest exEnv exServer ''sc'' (Some (exParams\<lparr>playerID := Some 1\<rparr>))
        (newReply None) 3 = (Return True, reply', s', [])"
      "sk_player (sockets s' ''sc'') = Some 0" "sk_match (sockets s' ''sc'') = Some 0"
      "sk_rule (sockets s' ''sc'') = Some exRule"
      "length (players s') = length (players exServer)" "matches s' = matches exServer"
      "p_socketID (players s' ! 0) = Some ''sc''"
      "reconnected reply' = Some True" "r_player reply' = Some 0"
    by blast
  have "\<exists>reply' s'.
      handleCreateGuest exEnv exServer ''sc'' (Some (exParams\<lparr>playerID := Some 1\<rparr>))
        (newReply None) 3 = (Return True, reply', s', []) \<and>
      sk_player (sockets s' ''sc'') = Some 0 \<and> sk_match (sockets s' ''sc'') = Some 0 \<and>
      sk_rule (sockets s' ''sc'') = Some exRule \<and>
      length (players s') = length (players exServer) \<and> matches s' = matches exServer \<and>
      p_socketID (players s' ! 0) = Some ''sc'' \<and>
      reconnected reply' = Some True \<and> r_player reply' = Some 0"
    by (intro exI[of _ reply'] exI[of _ s']) (simp add: r)
  with h1 h2 h3 h4 h5 h6 h7 show ?thesis by simp
qed



subsection \<open>Joining a match whose guest seat is filled\<close>

lemma seatGuest_frame:
  assumes "seatGuest s k reply mr gp rule = (c, reply', s', out)"
  shows "(c = Return True \<or> c = Throw) \<and> length (matches s') = length (matches s) \<and>
         (\<forall>i. i \<noteq> mr \<longrightarrow> matches s' ! i = matches s ! i)"
  using seatGuest_cases[OF assms]
  by (auto simp: updMatch_nth seated_other_match)

lemma joinTarget_slug:
  "truthyS (hostSlug q) \<Longrightarrow> joinTarget s (Some q) = Some mr \<Longrightarrow>
   mr < length (matches s) \<and> m_guest (matches s ! mr) = None"
  by (auto simp: joinTarget_def dest: getOpenMatchByHostSlug_Some)

lemma errorMessage_differs:
  "a \<noteq> b \<Longrightarrow> reply\<lparr>errorMessage := a\<rparr> \<noteq> reply\<lparr>errorMessage := b\<rparr>"
  by (rule notI, drule arg_cong[where f = errorMessage]) simp

lemma handleJoinMatch_frame:
  assumes "handleJoinMatch E s k ps reply = (c, reply', s', out)"
    and "m_guest (matches s ! mr) \<noteq> None"
  shows "matches s' ! mr = matches s ! mr"
proof (cases "joinTarget s ps")
  case None
  with assms show ?thesis by (auto simp: handleJoinMatch_def refuse_def)
next
  case (Some t)
  show ?thesis
  proof (cases "m_guest (matches s ! t) \<noteq> None")
    case True
    with assms Some show ?thesis by (auto simp: handleJoinMatch_def refuse_def)
  next
    case False
    with assms(2) have ne: "mr \<noteq> t" by auto
    show ?thesis
    proof (cases "getSocketPlayer s k")
      case None
      with assms Some False show ?thesis by (auto simp: handleJoinMatch_def refuse_def)
    next
      case gp: (Some gp)
      show ?thesis
      proof (cases "loadRule E ''RuleBgCasual''")
        case None
        with assms Some False gp show ?thesis by (auto simp: handleJoinMatch_def)
      next
        case r: (Some rule)
        with assms Some False gp
        have "seatGuest s k reply t gp rule = (c, reply', s', out)"
          by (simp add: handleJoinMatch_def)
        from seatGuest_frame[OF this] ne show ?thesis by simp
      qed
    qed
  qed
qed

lemma handleJoinMatch_slug_never_full:
  assumes "truthyS (hostSlug q)"
  shows "handleJoinMatch E s k (Some q) reply \<noteq>
           (Return False, reply\<lparr>errorMessage := Some ''Match is full!''\<rparr>, s, [])"
proof (cases "joinTarget s (Some q)")
  case None
  have "reply\<lparr>errorMessage := Some ''Match not found!''\<rparr> \<noteq>
        reply\<lparr>errorMessage := Some ''Match is full!''\<rparr>"
    by (rule errorMessage_differs) simp
  with None show ?thesis by (simp add: handleJoinMatch_def refuse_def)
next
  case (Some t)
  from joinTarget_slug[OF assms Some] have g: "m_guest (matches s ! t) = None" by simp
  have ne: "reply\<lparr>errorMessage := Some ''Player not found!''\<rparr> \<noteq>
        reply\<lparr>errorMessage := Some ''Match is full!''\<rparr>"
    by (rule errorMessage_differs) simp
  show ?thesis
  proof (cases "getSocketPlayer s k")
    case None
    with Some g ne show ?thesis by (simp add: handleJoinMatch_def refuse_def)
  next
    case gp: (Some gp)
    show ?thesis
    proof (cases "loadRule E ''RuleBgCasual''")
      case None
      with Some g gp show ?thesis by (simp add: handleJoinMatch_def)
    next
      case r: (Some rule)
      obtain c reply' s' out where sg: "seatGuest s k reply t gp rule = (c, reply', s', out)"
        by (cases "seatGuest s k reply t gp rule") auto
      from seatGuest_frame[OF sg] have "c \<noteq> Return False" by auto
      with Some g gp r sg show ?thesis by (simp add: handleJoinMatch_def)
    qed
  qed
qed

text \<open>
  C5, as claimed, fails for a request addressed by slug: match 10 has its guest and the
  host slug \<open>alice\<close>; a JOIN_MATCH for the slug \<open>alice\<close> is answered with
  \<open>Match not found!\<close>, not with a match-full error.
\<close>

theorem join_full_match_counterexample:
  "m_guest (matches exServer ! 0) = Some 1 \<and>
   m_hostSlug (matches exServer ! 0) = Some ''alice'' \<and>
   handleJoinMatch exEnv exServer ''sc'' (Some (exParams\<lparr>hostSlug := Some ''alice''\<rparr>))
     (newReply None) =
     (Return False, (newReply None)\<lparr>errorMessage := Some ''Match not found!''\<rparr>, exServer, [])"
  by (simp add: handleJoinMatch_def joinTarget_def getOpenMatchByHostSlug_def slug_alice
      openWithSlug_def refuse_def truthyS_def orEmpty_def exServer_def exMatch_def exParams_def)

text \<open>
  C5, amended.  A JOIN_MATCH request addressed by match id to a match whose guest seat is
  filled fails with \<open>Match is full!\<close> and the server is unchanged.  A request addressed
  by slug resolves open matches only: its target never has a guest, it never fails with
  \<open>Match is full!\<close>, and when no open match bears the slug it fails with
  \<open>Match not found!\<close> and the server is unchanged.  Whatever a JOIN_MATCH request does,
  every match whose guest seat is filled is afterwards the record it was.
\<close>

theorem join_full_match:
  "(\<not> truthyS (hostSlug p) \<and> truthyN (matchID p) \<and> getMatchByID s (matchID p) = Some mr \<and>
    m_guest (matches s ! mr) \<noteq> None \<longrightarrow>
      handleJoinMatch E s k (Some p) reply =
        (Return False, reply\<lparr>errorMessage := Some ''Match is full!''\<rparr>, s, [])) \<and>
   (truthyS (hostSlug q) \<longrightarrow>
      handleJoinMatch E s k (Some q) reply \<noteq>
        (Return False, reply\<lparr>errorMessage := Some ''Match is full!''\<rparr>, s, []) \<and>
      (\<forall>t. joinTarget s (Some q) = Some t \<longrightarrow> m_guest (matches s ! t) = None) \<and>
      (getOpenMatchByHostSlug s (iccjSlugify (orEmpty (hostSlug q))) = None \<longrightarrow>
         handleJoinMatch E s k (Some q) reply =
           (Return False, reply\<lparr>errorMessage := Some ''Match not found!''\<rparr>, s, []))) \<and>
   (\<forall>i. m_guest (matches s ! i) \<noteq> None \<longrightarrow>
      matches (fst (snd (snd (handleJoinMatch E s k ps reply)))) ! i = matches s ! i)"
proof (intro conjI impI allI)
  assume "\<not> truthyS (hostSlug p) \<and> truthyN (matchID p) \<and>
          getMatchByID s (matchID p) = Some mr \<and> m_guest (matches s ! mr) \<noteq> None"
  then show "handleJoinMatch E s k (Some p) reply =
        (Return False, reply\<lparr>errorMessage := Some ''Match is full!''\<rparr>, s, [])"
    by (simp add: handleJoinMatch_def joinTarget_def refuse_def)
next
  assume "truthyS (hostSlug q)"
  then show "handleJoinMatch E s k (Some q) reply \<noteq>
        (Return False, reply\<lparr>errorMessage := Some ''Match is full!''\<rparr>, s, [])"
    by (rule handleJoinMatch_slug_never_full)
next
  fix t
  assume "truthyS (hostSlug q)" "joinTarget s (Some q) = Some t"
  then show "m_guest (matches s ! t) = None" using joinTarget_slug by blast
next
  assume "truthyS (hostSlug q)"
    "getOpenMatchByHostSlug s (iccjSlugify (orEmpty (hostSlug q))) = None"
  then show "handleJoinMatch E s k (Some q) reply =
           (Return False, reply\<lparr>errorMessage := Some ''Match not found!''\<rparr>, s, [])"
    by (simp add: handleJoinMatch_def joinTarget_def refuse_def)
next
  fix i
  assume g: "m_guest (matches s ! i) \<noteq> None"
  obtain c reply' s' out where r: "handleJoinMatch E s k ps reply = (c, reply', s', out)"
    by (cases "handleJoinMatch E s k ps reply") auto
  from handleJoinMatch_frame[OF r g] r
  show "matches (fst (snd (snd (handleJoinMatch E s k ps reply)))) ! i = matches s ! i"
    by simp
qed


theorem join_full_match_witness:
  "\<not> truthyS (hostSlug (exParams\<lparr>matchID := Some 10\<rparr>)) \<and>
   truthyN (matchID (exParams\<lparr>matchID := Some 10\<rparr>)) \<and>
   getMatchByID exServer (matchID (exParams\<lparr>matchID := Some 10\<rparr>)) = Some 0 \<and>
   m_guest (matches exServer ! 0) \<noteq> None \<and>
   handleJoinMatch exEnv exServer ''sc'' (Some (exParams\<lparr>matchID := Some 10\<rparr>)) (newReply None) =
     (Return False, (newReply None)\<lparr>errorMessage := Some ''Match is full!''\<rparr>, exServer, []) \<and>
   truthyS (hostSlug (exParams\<lparr>hostSlug := Some ''alice''\<rparr>)) \<and>
   getOpenMatchByHostSlug exServer
     (iccjSlugify (orEmpty (hostSlug (exParams\<lparr>hostSlug := Some ''alice''\<rparr>)))) = None \<and>
   handleJoinMatch exEnv exServer ''sc'' (Some (exParams\<lparr>hostSlug := Some ''alice''\<rparr>))
     (newReply None) =
     (Return False, (newReply None)\<lparr>errorMessage := Some ''Match not found!''\<rparr>, exServer, []) \<and>
   matches (fst (snd (snd (handleJoinMatch exEnv exServer ''sc''
      (Some (exParams\<lparr>hostSlug := Some ''alice''\<rparr>)) (newReply None))))) ! 0 =
     matches exServer ! 0"
proof -
  have h1: "\<not> truthyS (hostSlug (exParams\<lparr>matchID := Some 10\<rparr>))"
    by (simp add: exParams_def truthyS_def)
  have h2: "truthyN (matchID (exParams\<lparr>matchID := Some 10\<rparr>))"
    by (simp add: truthyN_def)
  have h3: "getMatchByID exServer (matchID (exParams\<lparr>matchID := Some 10\<rparr>)) = Some 0"
    by (simp add: getMatchByID_def exServer_def exMatch_def)
  have h4: "m_guest (matches exServer ! 0) \<noteq> None"
    by (simp add: exServer_def exMatch_def)
  have h5: "truthyS (hostSlug (exParams\<lparr>hostSlug := Some ''alice''\<rparr>))"
    by (simp add: truthyS_def)
  have h6: "getOpenMatchByHostSlug exServer
     (iccjSlugify (orEmpty (hostSlug (exParams\<lparr>hostSlug := Some ''alice''\<rparr>)))) = None"
    by (simp add: getOpenMatchByHostSlug_def orEmpty_def slug_alice openWithSlug_def
        exServer_def exMatch_def)
  from join_full_match[of "exParams\<lparr>matchID := Some 10\<rparr>" exServer 0 exEnv "''sc''"
      "newReply None" "exParams\<lparr>hostSlug := Some ''alice''\<rparr>"
      "Some (exParams\<lparr>hostSlug := Some ''alice''\<rparr>)"]
    h1 h2 h3 h4 h5 h6
  show ?thesis by simp
qed

subsection \<open>Slugs: from the display name to the open match\<close>

lemma handleJoinMatch_length:
  assumes "handleJoinMatch E s k ps reply = (c, reply', s', out)"
  shows "length (matches s') = length (matches s)"
proof -
  have "(\<exists>t gp rule. seatGuest s k reply t gp rule = (c, reply', s', out)) \<or> s' = s"
    using assms
    by (auto simp: handleJoinMatch_def refuse_def split: option.splits if_splits)
  then show ?thesis using seatGuest_frame by fastforce
qed

lemma handleJoinMatch_seated:
  assumes "handleJoinMatch E s k ps reply = (Return True, r2, s2, o2)"
  shows "\<exists>mr gp. joinTarget s ps = Some mr \<and> getSocketPlayer s k = Some gp \<and>
           sk_match (sockets s2 k) = Some mr \<and>
           (mr < length (matches s) \<longrightarrow> m_guest (matches s2 ! mr) = Some gp)"
proof -
  from assms obtain mr gp rule where
    t: "joinTarget s ps = Some mr" and gp: "getSocketPlayer s k = Some gp" and
    sg: "seatGuest s k reply mr gp rule = (Return True, r2, s2, o2)"
    by (auto simp: handleJoinMatch_def refuse_def split: option.splits if_splits)
  from seatGuest_cases[OF sg] obtain f where
    s2: "s2 = setSocketRule (setSocketMatch (updMatch (seated s mr gp) mr f) k mr) k rule"
    and f: "\<forall>m. m_ruleName (f m) = m_ruleName m \<and> m_guest (f m) = m_guest m"
    by auto
  have "sk_match (sockets s2 k) = Some mr" by (simp add: s2)
  moreover have "mr < length (matches s) \<longrightarrow> m_guest (matches s2 ! mr) = Some gp"
    by (simp add: s2 updMatch_nth f seated_guest)
  ultimately show ?thesis using t gp by blast
qed



















subsection \<open>Undo and the snapshot of the roll\<close>

lemma handleMovePiece_cases:
  assumes "handleMovePiece E s k ps reply = (c, r, s', out)"
  shows "s' = s \<or>
         (\<exists>mr game st d. m_currentGame (matches s ! mr) = Some game \<and>
            s' = updMatch s mr
                   (\<lambda>m. m\<lparr>m_currentGame :=
                            Some (game\<lparr>g_cells := (g_cells game)[g_state game := st],
                                       g_turnDice := d,
                                       g_moveSequence := g_moveSequence game + 1\<rparr>)\<rparr>))"
  using assms
  by (auto simp: handleMovePiece_def refuse_def Let_def boardState_def
      split: option.splits if_splits)

lemma snapshotKept_move:
  "snapshotKept p v g \<Longrightarrow>
   snapshotKept p v (g\<lparr>g_cells := (g_cells g)[g_state g := st], g_turnDice := d,
                        g_moveSequence := n\<rparr>)"
  by (simp add: snapshotKept_def)

lemma handleMovePiece_keeps:
  assumes r: "handleMovePiece E s k ps reply = (c, r, s', out)"
    and g: "m_currentGame (matches s ! mr) = Some g" "snapshotKept p v g"
  shows "length (matches s') = length (matches s) \<and>
         (\<exists>g'. m_currentGame (matches s' ! mr) = Some g' \<and> snapshotKept p v g')"
proof -
  from handleMovePiece_cases[OF r] show ?thesis
  proof
    assume "s' = s"
    with g show ?thesis by simp
  next
    assume "\<exists>mr game st d. m_currentGame (matches s ! mr) = Some game \<and>
            s' = updMatch s mr
                   (\<lambda>m. m\<lparr>m_currentGame :=
                            Some (game\<lparr>g_cells := (g_cells game)[g_state game := st],
                                       g_turnDice := d,
                                       g_moveSequence := g_moveSequence game + 1\<rparr>)\<rparr>)"
    then obtain t game st d where
      t: "m_currentGame (matches s ! t) = Some game" and
      s': "s' = updMatch s t
                   (\<lambda>m. m\<lparr>m_currentGame :=
                            Some (game\<lparr>g_cells := (g_cells game)[g_state game := st],
                                       g_turnDice := d,
                                       g_moveSequence := g_moveSequence game + 1\<rparr>)\<rparr>)"
      by blast
    show ?thesis
    proof (cases "t = mr \<and> mr < length (matches s)")
      case True
      with t g have "game = g" by simp
      with True s' snapshotKept_move[OF g(2)] show ?thesis
        by (simp add: updMatch_nth)
    next
      case False
      with s' g show ?thesis by (auto simp: updMatch_nth)
    qed
  qed
qed

lemma acceptedMoves_keeps:
  assumes "acceptedMoves E s reqs = Some s'"
    and "m_currentGame (matches s ! mr) = Some g" "snapshotKept p v g"
  shows "length (matches s') = length (matches s) \<and>
         (\<exists>g'. m_currentGame (matches s' ! mr) = Some g' \<and> snapshotKept p v g')"
  using assms
proof (induction reqs arbitrary: s g)
  case Nil
  then show ?case by simp
next
  case (Cons req reqs)
  obtain k ps reply where req: "req = (k, ps, reply)" by (cases req) auto
  obtain c r s1 out where h: "handleMovePiece E s k ps reply = (c, r, s1, out)"
    by (cases "handleMovePiece E s k ps reply") auto
  from Cons.prems(1) req h have rest: "acceptedMoves E s1 reqs = Some s'"
    by (auto split: completion.splits bool.splits)
  from handleMovePiece_keeps[OF h Cons.prems(2,3)] obtain g1 where
    l: "length (matches s1) = length (matches s)" and
    g1: "m_currentGame (matches s1 ! mr) = Some g1" "snapshotKept p v g1"
    by blast
  from Cons.IH[OF rest g1] l show ?case by simp
qed

lemma handleUndoMoves_accepted:
  assumes "handleUndoMoves s k ps reply = (Return True, r, s', out)"
  shows "\<exists>mr game. getSocketMatch s k = Some mr \<and> m_currentGame (matches s ! mr) = Some game \<and>
           s' = updMatch s mr (\<lambda>m. m\<lparr>m_currentGame := Some (Game_restoreState game)\<rparr>)"
  using assms
  by (auto simp: handleUndoMoves_def refuse_def Let_def split: option.splits if_splits)

text \<open>
  C2.  Let a ROLL_DICE request be accepted for a match whose game has its board State at
  an allocated address; the roll retains a snapshot, a State object of its own that holds
  the value of the board at the roll.  After any number of accepted moves, an accepted
  UNDO_MOVES request on that match leaves a board State whose value is the value of the
  board at the roll; the board State and the retained snapshot are different objects, the
  snapshot still holds that value, and a later write to the board State in place does not
  reach it.
\<close>

theorem undo_restores_snapshot:
  assumes roll: "handleRollDice s0 k0 ps0 reply0 rnd = (Return True, r1, s1, out1)"
    and m0: "getSocketMatch s0 k0 = Some mr" "mr < length (matches s0)"
    and g0: "m_currentGame (matches s0 ! mr) = Some g0" "g_state g0 < length (g_cells g0)"
    and moves: "acceptedMoves E s1 reqs = Some s2"
    and undo: "handleUndoMoves s2 k ps reply = (Return True, r3, s3, out3)"
    and m2: "getSocketMatch s2 k = Some mr"
  shows "\<exists>g1 g3 p.
           m_currentGame (matches s1 ! mr) = Some g1 \<and> g_previousState g1 = Some p \<and>
           g_cells g1 ! p = boardState g0 \<and> boardState g1 = boardState g0 \<and>
           m_currentGame (matches s3 ! mr) = Some g3 \<and>
           boardState g3 = boardState g0 \<and>
           g_previousState g3 = Some p \<and> g_state g3 \<noteq> p \<and>
           g_cells g3 ! p = boardState g0 \<and>
           (\<forall>x. (g_cells g3)[g_state g3 := x] ! p = boardState g0)"
proof -
  from handleRollDice_accepted[OF roll] m0(1) g0(1) obtain d where
    s1: "s1 = updMatch s0 mr
           (\<lambda>m. m\<lparr>m_currentGame := Some (Game_snapshotState (g0\<lparr>g_turnDice := Some d\<rparr>))\<rparr>)"
    by auto
  define g1 where "g1 = Game_snapshotState (g0\<lparr>g_turnDice := Some d\<rparr>)"
  define p where "p = length (g_cells g0)"
  have c1: "m_currentGame (matches s1 ! mr) = Some g1"
    using m0(2) by (simp add: s1 g1_def updMatch_nth)
  have k1: "snapshotKept p (boardState g0) g1"
    using g0(2) by (simp add: snapshotKept_def g1_def p_def Game_snapshotState_def boardState_def
        nth_append)
  have b1: "boardState g1 = boardState g0"
    using g0(2) by (simp add: g1_def Game_snapshotState_def boardState_def nth_append)
  from acceptedMoves_keeps[OF moves c1 k1] obtain g2 where
    l2: "length (matches s2) = length (matches s1)" and
    c2: "m_currentGame (matches s2 ! mr) = Some g2" and k2: "snapshotKept p (boardState g0) g2"
    by blast
  from handleUndoMoves_accepted[OF undo] m2 c2 have
    s3: "s3 = updMatch s2 mr (\<lambda>m. m\<lparr>m_currentGame := Some (Game_restoreState g2)\<rparr>)"
    by auto
  define g3 where "g3 = Game_restoreState g2"
  have inr2: "mr < length (matches s2)" using l2 m0(2) by (simp add: s1)
  have c3: "m_currentGame (matches s3 ! mr) = Some g3"
    using inr2 by (simp add: s3 g3_def updMatch_nth)
  from k2 have f: "boardState g3 = boardState g0" "g_previousState g3 = Some p"
    "g_state g3 \<noteq> p" "g_cells g3 ! p = boardState g0"
    by (simp_all add: snapshotKept_def g3_def Game_restoreState_def boardState_def nth_append)
  then have w: "\<forall>x. (g_cells g3)[g_state g3 := x] ! p = boardState g0" by simp
  from k1 have q: "g_previousState g1 = Some p" "g_cells g1 ! p = boardState g0"
    by (simp_all add: snapshotKept_def)
  show ?thesis
    by (rule exI[of _ g1], rule exI[of _ g3], rule exI[of _ p], intro conjI)
       (rule c1 q b1 c3 f w)+
qed


lemma ex_roll26:
  "handleRollDice exServer ''sa'' (Some exParams) (newReply None) 26 =
     (Return True, (newReply None)\<lparr>r_player := Some 0, r_dice := Some [3, 5]\<rparr>, exRolled,
      [\<lparr>to_socket = ''sb'', em_message = EVENT_DICE_ROLL, em_params = Event (MatchOnly 0)\<rparr>])"
  by (simp add: handleRollDice_def ex_defs getSocketMatch_def getSocketPlayer_def
      getSocketRule_def Game_diceWasRolled_def Game_snapshotState_def Let_def
      sendOthersMessage_def getPlayerByID_def sendPlayerMessage_def sendMessage_def updMatch_def)

lemma ex_move:
  "acceptedMoves exEnv exRolled
     [(''sa'', Some (exParams\<lparr>piece := Some (Piece WHITE 1), steps := Some 3,
                              moveSequence := Some 2\<rparr>), newReply None)] = Some exMoved"
  by (simp add: handleMovePiece_def ex_defs getSocketMatch_def getSocketPlayer_def
      getSocketRule_def boardState_def Let_def updMatch_def)

lemma ex_undo:
  "fst (handleUndoMoves exMoved ''sa'' None (newReply None)) = Return True"
  by (simp add: handleUndoMoves_def ex_defs getSocketMatch_def getSocketPlayer_def
      getSocketRule_def Let_def)

theorem undo_restores_snapshot_witness:
  "getSocketMatch exServer ''sa'' = Some 0 \<and> 0 < length (matches exServer) \<and>
   m_currentGame (matches exServer ! 0) = Some exGame \<and>
   g_state exGame < length (g_cells exGame) \<and>
   getSocketMatch exMoved ''sa'' = Some 0 \<and>
   boardState exGame = 2 \<and> boardState exMovedGame = 3 \<and>
   handleRollDice exServer ''sa'' (Some exParams) (newReply None) 26 =
     (Return True, (newReply None)\<lparr>r_player := Some 0, r_dice := Some [3, 5]\<rparr>, exRolled,
      [\<lparr>to_socket = ''sb'', em_message = EVENT_DICE_ROLL, em_params = Event (MatchOnly 0)\<rparr>]) \<and>
   acceptedMoves exEnv exRolled
     [(''sa'', Some (exParams\<lparr>piece := Some (Piece WHITE 1), steps := Some 3,
                              moveSequence := Some 2\<rparr>), newReply None)] = Some exMoved \<and>
   (\<exists>r3 s3 out3.
      handleUndoMoves exMoved ''sa'' None (newReply None) = (Return True, r3, s3, out3) \<and>
      (\<exists>g3 p. m_currentGame (matches s3 ! 0) = Some g3 \<and> boardState g3 = 2 \<and>
              g_previousState g3 = Some p \<and> g_state g3 \<noteq> p \<and> g_cells g3 ! p = 2))"
proof -
  have h1: "getSocketMatch exServer ''sa'' = Some 0"
    by (simp add: getSocketMatch_def exServer_def exSockets_def)
  have h2: "0 < length (matches exServer)" by (simp add: exServer_def)
  have h3: "m_currentGame (matches exServer ! 0) = Some exGame"
    by (simp add: exServer_def exMatch_def)
  have h4: "g_state exGame < length (g_cells exGame)" by (simp add: exGame_def)
  have h5: "getSocketMatch exMoved ''sa'' = Some 0"
    by (simp add: getSocketMatch_def exMoved_def exServer_def exSockets_def)
  have b0: "boardState exGame = 2" by (simp add: boardState_def exGame_def)
  have b2: "boardState exMovedGame = 3"
    by (simp add: boardState_def exMovedGame_def exRolledGame_def exGame_def)
  from ex_undo obtain r3 s3 out3 where
    u: "handleUndoMoves exMoved ''sa'' None (newReply None) = (Return True, r3, s3, out3)"
    by (cases "handleUndoMoves exMoved ''sa'' None (newReply None)") auto
  from undo_restores_snapshot[OF ex_roll26 h1 h2 h3 h4 ex_move u h5]
  obtain g3 p where
    g: "m_currentGame (matches s3 ! 0) = Some g3" "boardState g3 = boardState exGame"
       "g_previousState g3 = Some p" "g_state g3 \<noteq> p" "g_cells g3 ! p = boardState exGame"
    by (elim exE conjE)
  have e: "\<exists>g3 p. m_currentGame (matches s3 ! 0) = Some g3 \<and> boardState g3 = 2 \<and>
              g_previousState g3 = Some p \<and> g_state g3 \<noteq> p \<and> g_cells g3 ! p = 2"
    by (rule exI[of _ g3], rule exI[of _ p]) (simp add: g b0)
  have "\<exists>r3 s3 out3.
      handleUndoMoves exMoved ''sa'' None (newReply None) = (Return True, r3, s3, out3) \<and>
      (\<exists>g3 p. m_currentGame (matches s3 ! 0) = Some g3 \<and> boardState g3 = 2 \<and>
              g_previousState g3 = Some p \<and> g_state g3 \<noteq> p \<and> g_cells g3 ! p = 2)"
    by (rule exI[of _ r3], rule exI[of _ s3], rule exI[of _ out3], rule conjI) (rule u e)+
  with h1 h2 h3 h4 h5 b0 b2 ex_roll26 ex_move show ?thesis by (intro conjI)
qed


end
